theory Spec2Isabelle
  imports Complex_Main "HOL-Library.Log_Nat" "HOL-Library.Sublist"
begin

section \<open>Python values used by the service\<close>

text \<open>
  Exceptions are values. Everything the service catches is an instance of Python's
  \<open>Exception\<close>: \<open>Exn c s\<close> is an instance of the class named \<open>c\<close> for which
  \<open>str(e)\<close> returns \<open>s\<close>. The only exception whose fields the code reads is
  FastAPI's \<open>HTTPException\<close> (status code and detail).
\<close>

datatype exn = Exn string string | HTTPException nat string

text \<open>Decimal rendering of a natural number, as an f-string renders an int.\<close>

fun str_nat :: "nat \<Rightarrow> string" where
  "str_nat n = (if n < 10 then [''0123456789'' ! n]
                else str_nat (n div 10) @ [''0123456789'' ! (n mod 10)])"

declare str_nat.simps [simp del]

text \<open>
  \<open>str(e)\<close>. For \<open>HTTPException\<close> this is Starlette's \<open>__str__\<close>,
  \<open>f"{status_code}: {detail}"\<close>.
\<close>

fun str_exn :: "exn \<Rightarrow> string" where
  "str_exn (Exn c s) = s"
| "str_exn (HTTPException code detail) = str_nat code @ '': '' @ detail"

text \<open>
  The values stored in a task record: strings and the timestamps of \<open>time.time()\<close>.
  A finite float is a rational number, and the timestamps are only stored and compared.
  \<open>PyNone\<close> is Python's \<open>None\<close>, which \<open>dict.get\<close> returns for a missing key.
\<close>

datatype pyval = Str string | Float rat | PyNone

text \<open>A Python dict with string keys, as the task records are.\<close>

type_synonym pydict = "string \<rightharpoonup> pyval"

definition dict_get :: "pydict \<Rightarrow> string \<Rightarrow> pyval" where
  "dict_get d k = (case d k of None \<Rightarrow> PyNone | Some v \<Rightarrow> v)"

text \<open>
  What \<open>json.loads\<close> returns. An object keeps its members in the order of the text;
  when a key is repeated, Python keeps the last one. A number without fraction and
  exponent is an \<open>int\<close>, any other number a \<open>float\<close>.
\<close>

datatype json =
  JObject "(string \<times> json) list"
| JArray "json list"
| JString string
| JInt int
| JFloat rat
| JBool bool
| JNull

text \<open>A text between apostrophes, as Python prints the \<open>repr\<close> of a plain string.\<close>

definition quote :: "string \<Rightarrow> string" where
  "quote s = [CHR 0x27] @ s @ [CHR 0x27]"

text \<open>
  \<open>x[key]\<close> with a string key, with the messages of Python 3.11: a dict raises
  \<open>KeyError\<close> for a missing key (its \<open>str\<close> is the \<open>repr\<close> of the key), a
  list and a str raise \<open>TypeError\<close> for an index that is not an integer, and the
  other values are not subscriptable.
\<close>

definition getitem :: "json \<Rightarrow> string \<Rightarrow> exn + json" where
  "getitem x key =
     (case x of
        JObject kvs \<Rightarrow>
          (case map_of (rev kvs) key of
             None \<Rightarrow> Inl (Exn ''KeyError'' (quote key))
           | Some v \<Rightarrow> Inr v)
      | JArray _ \<Rightarrow> Inl (Exn ''TypeError'' ''list indices must be integers or slices, not str'')
      | JString _ \<Rightarrow>
          Inl (Exn ''TypeError'' (''string indices must be integers, not '' @ quote ''str''))
      | JInt _ \<Rightarrow> Inl (Exn ''TypeError'' (quote ''int'' @ '' object is not subscriptable''))
      | JFloat _ \<Rightarrow> Inl (Exn ''TypeError'' (quote ''float'' @ '' object is not subscriptable''))
      | JBool _ \<Rightarrow> Inl (Exn ''TypeError'' (quote ''bool'' @ '' object is not subscriptable''))
      | JNull \<Rightarrow> Inl (Exn ''TypeError'' (quote ''NoneType'' @ '' object is not subscriptable'')))"

section \<open>Binary64 arithmetic of \<open>resize_image\<close>\<close>

text \<open>
  \<open>resize_image\<close> divides two ints with \<open>/\<close> and multiplies an int by the resulting
  float. Both operations return the binary64 number nearest to the exact result, ties to
  even. A non-negative binary64 number is kept as a pair: \<open>F64 m e\<close> stands for
  \<open>m * 2^e\<close>. The model covers the normal range of binary64 (no overflow, no
  subnormal numbers), where every pixel count and every scale factor of an image lies.
\<close>

datatype float64 = F64 int int

text \<open>
  The integer nearest to \<open>a / b\<close>, ties to the even one, for \<open>a \<ge> 0\<close> and
  \<open>b > 0\<close>.
\<close>

definition round_quot :: "int \<Rightarrow> int \<Rightarrow> int" where
  "round_quot a b =
     (let f = a div b; r = a mod b
      in if 2 * r < b then f
         else if b < 2 * r then f + 1
         else if even f then f else f + 1)"

text \<open>
  \<open>a / b\<close> on two Python ints, \<open>b > 0\<close>: with \<open>e\<close> the exponent such that
  \<open>2^e \<le> a / b < 2^(e+1)\<close>, the quotient is scaled by \<open>2^(52 - e)\<close> to a 53-bit
  significand and rounded. (\<open>2 ^ nat k\<close> is \<open>1\<close> for negative \<open>k\<close>, so each
  scaling below multiplies the numerator or the denominator, whichever the sign says.)
\<close>

definition py_truediv :: "nat \<Rightarrow> nat \<Rightarrow> float64" where
  "py_truediv a b =
     (if a = 0 then F64 0 0
      else let k = bitlen (int a) - bitlen (int b);
               e = (if int b * 2 ^ nat k \<le> int a * 2 ^ nat (- k) then k else k - 1);
               s = 52 - e
           in F64 (round_quot (int a * 2 ^ nat s) (int b * 2 ^ nat (- s))) (- s))"

text \<open>
  \<open>n * x\<close> on an int (below \<open>2^53\<close>, so that its conversion to float is exact) and
  a float: the exact product \<open>(n * m) * 2^e\<close>, rounded to 53 bits.
\<close>

definition py_mul_int_float :: "nat \<Rightarrow> float64 \<Rightarrow> float64" where
  "py_mul_int_float n x =
     (case x of F64 m e \<Rightarrow>
        let p = int n * m; d = bitlen p - 53
        in if d \<le> 0 then F64 p e else F64 (round_quot p (2 ^ nat d)) (e + d))"

text \<open>\<open>int(x)\<close> truncates toward zero; the floats here are never negative.\<close>

definition py_int :: "float64 \<Rightarrow> nat" where
  "py_int x = (case x of F64 m e \<Rightarrow>
                 nat (if 0 \<le> e then m * 2 ^ nat e else m div 2 ^ nat (- e)))"

section \<open>Images and \<open>app/utils/helpers.py\<close>\<close>

text \<open>
  A PIL image as far as the service looks at it: its size and the \<open>format\<close>
  attribute, which is \<open>None\<close> for an image that was not read from a file.
\<close>

record image =
  width :: nat
  height :: nat
  format :: "string option"

text \<open>
  The size that \<open>resize_image\<close> asks PIL for, lines 28 to 32 of helpers.py. It is
  reached only when a side exceeds \<open>target_size\<close>, so the divisor is positive.
\<close>

definition new_size :: "nat \<Rightarrow> nat \<Rightarrow> nat \<Rightarrow> nat \<times> nat" where
  "new_size w h target_size =
     (let scale_factor = py_truediv target_size (max w h);
          new_width = py_int (py_mul_int_float w scale_factor);
          new_height = py_int (py_mul_int_float h scale_factor)
      in (new_width, new_height))"

text \<open>
  \<open>resize_image\<close>. \<open>pil_resize\<close> is PIL's \<open>Image.resize\<close>, which belongs to the
  library: it is a parameter, and it may raise.
\<close>

definition resize_image ::
  "(image \<Rightarrow> nat \<times> nat \<Rightarrow> exn + image) \<Rightarrow> image \<Rightarrow> nat \<Rightarrow> exn + image" where
  "resize_image pil_resize input_img target_size =
     (if width input_img \<le> target_size \<and> height input_img \<le> target_size
      then Inr input_img
      else pil_resize input_img (new_size (width input_img) (height input_img) target_size))"

text \<open>
  The settings of \<open>app/core/config.py\<close> that the helpers read.
\<close>

record settings =
  API_BASE_URL :: string
  DATA_DIR :: string

text \<open>
  \<open>save_image\<close>. \<open>image_save\<close> is \<open>os.makedirs\<close> followed by PIL's
  \<open>Image.save\<close> at the full path: it returns the exception it raised, if any.
  \<open>os.path.join\<close> puts one separator between the directory and a relative path (the
  paths given here are relative, and \<open>DATA_DIR\<close> does not end with a separator).
\<close>

definition path_join :: "string \<Rightarrow> string \<Rightarrow> string" where
  "path_join a b = a @ ''/'' @ b"

definition save_image ::
  "(image \<Rightarrow> string \<Rightarrow> exn option) \<Rightarrow> settings \<Rightarrow> image \<Rightarrow> string \<Rightarrow> exn + string" where
  "save_image image_save st img relative_path =
     (let full_path = path_join (DATA_DIR st) relative_path
      in case image_save img full_path of
           Some e \<Rightarrow> Inl e
         | None \<Rightarrow> Inr full_path)"

text \<open>\<open>os.path.basename\<close>: what follows the last separator.\<close>

definition basename :: "string \<Rightarrow> string" where
  "basename p = rev (takeWhile (\<lambda>c. c \<noteq> CHR ''/'') (rev p))"

definition get_image_url :: "settings \<Rightarrow> string \<Rightarrow> string" where
  "get_image_url st relative_path = API_BASE_URL st @ ''/data/outputs/'' @ basename relative_path"

section \<open>\<open>app/utils/validators.py\<close>\<close>

definition validate_image :: "image \<Rightarrow> nat \<Rightarrow> nat \<Rightarrow> exn + unit" where
  "validate_image img min_size max_size =
     (if width img < min_size \<or> height img < min_size then
        Inl (HTTPException 400
          (''Image dimensions too small. Minimum size is '' @ str_nat min_size @ ''x''
             @ str_nat min_size @ '' pixels.''))
      else if width img > max_size \<or> height img > max_size then
        Inl (HTTPException 400
          (''Image dimensions too large. Maximum size is '' @ str_nat max_size @ ''x''
             @ str_nat max_size @ '' pixels.''))
      else if format img \<notin> set [Some ''JPEG'', Some ''PNG'', Some ''JPG''] then
        Inl (HTTPException 400 ''Unsupported image format. Please upload a JPEG or PNG image.'')
      else Inr ())"

section \<open>The libraries and services the code calls\<close>

text \<open>
  The code reaches PIL, the model libraries, the hosted text-generation service and
  the file system through calls whose results it cannot control. Each such call is a
  field of \<open>env\<close>: a function of the arguments the code passes, returning the
  value or the exception raised.
  \<^item> \<open>pil_resize\<close>: \<open>Image.resize\<close>.
  \<^item> \<open>florence_from_pretrained\<close>, \<open>processor_from_pretrained\<close>,
    \<open>canny_new\<close>, \<open>flux_from_pretrained\<close>: the constructors that the model
    manager calls; \<open>None\<close> means the object was built.
  \<^item> \<open>florence_caption\<close>: the body of \<open>_generate_image_description\<close> after
    the two lookups (processor call, \<open>generate\<close>, decoding).
  \<^item> \<open>chat_completions_create\<close>: the call of
    \<open>openai_client.chat.completions.create\<close>, given the description, the style,
    the room type and the colour instruction that the code formats into the two
    messages; it returns the \<open>message.content\<close> of each choice of the response.
  \<^item> \<open>json_loads\<close>: \<open>json.loads\<close>; its exception is \<open>JSONDecodeError\<close>.
  \<^item> \<open>canny_detector\<close>: \<open>CannyDetector()\<close> called on the image with the fixed
    thresholds and resolutions.
  \<^item> \<open>flux_pipe\<close>: the Flux pipeline called with the two prompts and the control
    image (and the fixed size, step count and guidance scale); it returns
    \<open>result.images\<close>.
  \<^item> \<open>image_save\<close>: \<open>os.makedirs\<close> and \<open>Image.save\<close>.
\<close>

record env =
  pil_resize :: "image \<Rightarrow> nat \<times> nat \<Rightarrow> exn + image"
  florence_from_pretrained :: "exn option"
  processor_from_pretrained :: "exn option"
  canny_new :: "exn option"
  flux_from_pretrained :: "exn option"
  florence_caption :: "image \<Rightarrow> exn + string"
  chat_completions_create :: "string \<Rightarrow> string \<Rightarrow> string \<Rightarrow> string \<Rightarrow> exn + string option list"
  json_loads :: "string \<Rightarrow> exn + json"
  canny_detector :: "image \<Rightarrow> exn + image"
  flux_pipe :: "json \<Rightarrow> json \<Rightarrow> image \<Rightarrow> exn + image list"
  image_save :: "image \<Rightarrow> string \<Rightarrow> exn option"

section \<open>\<open>ml_models/model_manager.py\<close>\<close>

text \<open>
  A loaded model, processor or pipeline is a Python object; it is identified by a
  number, so that "the same instance" is equality. \<open>constructed\<close> counts the objects
  the manager has built so far and gives the next one its identity.
\<close>

type_synonym resource = nat

record ModelManager =
  models :: "string \<rightharpoonup> resource"
  processors :: "string \<rightharpoonup> resource"
  pipelines :: "string \<rightharpoonup> resource"
  constructed :: nat

definition ModelManager_init :: ModelManager where
  "ModelManager_init =
     \<lparr>models = Map.empty, processors = Map.empty, pipelines = Map.empty, constructed = 0\<rparr>"

text \<open>
  The three getters return the result (or the exception) and the manager as the call
  leaves it: an exception does not undo what was cached before it.
  \<open>_load_florence_model\<close> and \<open>_load_flux_pipeline\<close> log and re-raise the
  exception of the constructor, so their outcome is the constructor's.
\<close>

definition get_model :: "env \<Rightarrow> ModelManager \<Rightarrow> string \<Rightarrow> (exn + resource) \<times> ModelManager" where
  "get_model ev mm model_name =
     (case models mm model_name of
        Some model \<Rightarrow> (Inr model, mm)
      | None \<Rightarrow>
          if model_name = ''florence-2'' then
            (case florence_from_pretrained ev of
               Some e \<Rightarrow> (Inl e, mm)
             | None \<Rightarrow>
                 let model = constructed mm
                 in (Inr model,
                     mm\<lparr>models := (models mm)(model_name \<mapsto> model),
                        constructed := Suc (constructed mm)\<rparr>))
          else (Inl (Exn ''ValueError'' (''Unknown model: '' @ model_name)), mm))"

definition get_processor :: "env \<Rightarrow> ModelManager \<Rightarrow> string \<Rightarrow> (exn + resource) \<times> ModelManager" where
  "get_processor ev mm processor_name =
     (case processors mm processor_name of
        Some processor \<Rightarrow> (Inr processor, mm)
      | None \<Rightarrow>
          if processor_name = ''florence-2'' then
            (case processor_from_pretrained ev of
               Some e \<Rightarrow> (Inl e, mm)
             | None \<Rightarrow>
                 let processor = constructed mm
                 in (Inr processor,
                     mm\<lparr>processors := (processors mm)(processor_name \<mapsto> processor),
                        constructed := Suc (constructed mm)\<rparr>))
          else if processor_name = ''canny'' then
            (case canny_new ev of
               Some e \<Rightarrow> (Inl e, mm)
             | None \<Rightarrow>
                 let processor = constructed mm
                 in (Inr processor,
                     mm\<lparr>processors := (processors mm)(processor_name \<mapsto> processor),
                        constructed := Suc (constructed mm)\<rparr>))
          else (Inl (Exn ''ValueError'' (''Unknown processor: '' @ processor_name)), mm))"

definition get_pipeline :: "env \<Rightarrow> ModelManager \<Rightarrow> string \<Rightarrow> (exn + resource) \<times> ModelManager" where
  "get_pipeline ev mm pipeline_name =
     (case pipelines mm pipeline_name of
        Some pipeline \<Rightarrow> (Inr pipeline, mm)
      | None \<Rightarrow>
          if pipeline_name = ''flux-canny'' then
            (case flux_from_pretrained ev of
               Some e \<Rightarrow> (Inl e, mm)
             | None \<Rightarrow>
                 let pipeline = constructed mm
                 in (Inr pipeline,
                     mm\<lparr>pipelines := (pipelines mm)(pipeline_name \<mapsto> pipeline),
                        constructed := Suc (constructed mm)\<rparr>))
          else (Inl (Exn ''ValueError'' (''Unknown pipeline: '' @ pipeline_name)), mm))"

section \<open>\<open>app/services/populated_room.py\<close>\<close>

text \<open>
  The service object. \<open>openai_client\<close> tells whether \<open>__init__\<close> obtained a
  client (the attribute is \<open>None\<close> otherwise). \<open>status_writes\<close> is not in the
  source: it lists, oldest first, every value the code has assigned to the
  \<open>'status'\<close> key of a record, with the task id, so that the order of these
  assignments can be stated.
\<close>

record PopulatedRoomService =
  model_manager :: ModelManager
  tasks :: "string \<rightharpoonup> pydict"
  openai_client :: bool
  status_writes :: "(string \<times> string) list"

text \<open>
  \<open>__init__\<close> with no manager given. \<open>OpenAI(api_key=os.environ.get("OPENAI_API_KEY"))\<close>
  raises when the variable is not set, and the exception leaves \<open>openai_client\<close>
  at \<open>None\<close>.
\<close>

definition PopulatedRoomService_init :: "string option \<Rightarrow> PopulatedRoomService" where
  "PopulatedRoomService_init api_key =
     \<lparr>model_manager = ModelManager_init, tasks = Map.empty,
      openai_client = (api_key \<noteq> None), status_writes = []\<rparr>"

text \<open>The arguments of one \<open>_process_redesign\<close> coroutine.\<close>

record job =
  task_id :: string
  input_image :: image
  request_id :: string
  style :: string
  room_type :: string
  color_palette :: "string option"

text \<open>
  \<open>submit_redesign_task\<close>. \<open>uuid\<close> is the value of \<open>str(uuid.uuid4())\<close> and
  \<open>now\<close> that of \<open>time.time()\<close>. \<open>asyncio.create_task\<close> only schedules the
  coroutine: the function returns it, for the event loop to run later.
\<close>

definition submit_redesign_task ::
  "string \<Rightarrow> rat \<Rightarrow> PopulatedRoomService \<Rightarrow> image \<Rightarrow> string \<Rightarrow> string \<Rightarrow> string \<Rightarrow> string option
     \<Rightarrow> string \<times> PopulatedRoomService \<times> job" where
  "submit_redesign_task uuid now svc img req_id sty room palette =
     (let tid = uuid;
          svc' = svc\<lparr>tasks := (tasks svc)(tid \<mapsto>
                         [''status'' \<mapsto> Str ''pending'',
                          ''request_id'' \<mapsto> Str req_id,
                          ''created_at'' \<mapsto> Float now]),
                      status_writes := status_writes svc @ [(tid, ''pending'')]\<rparr>
      in (tid, svc',
          \<lparr>task_id = tid, input_image = img, request_id = req_id, style = sty,
           room_type = room, color_palette = palette\<rparr>))"

text \<open>
  \<open>self.tasks[task_id][key] = v\<close> for a task id that is in the registry.
  \<open>_process_redesign\<close> assigns to its record only after line 91 has found it, and
  nothing removes a record, so the \<open>KeyError\<close> of a missing id can only come from
  line 91, where \<open>_process_redesign\<close> below tests for it.
\<close>

definition setitem :: "PopulatedRoomService \<Rightarrow> string \<Rightarrow> string \<Rightarrow> pyval \<Rightarrow> PopulatedRoomService" where
  "setitem svc tid key v =
     (case tasks svc tid of
        None \<Rightarrow> svc
      | Some r \<Rightarrow> svc\<lparr>tasks := (tasks svc)(tid \<mapsto> r(key \<mapsto> v))\<rparr>)"

definition set_status :: "PopulatedRoomService \<Rightarrow> string \<Rightarrow> string \<Rightarrow> PopulatedRoomService" where
  "set_status svc tid v =
     (setitem svc tid ''status'' (Str v))\<lparr>status_writes := status_writes svc @ [(tid, v)]\<rparr>"

definition default_description :: string where
  "default_description = ''A room with furniture and decorations.''"

text \<open>
  \<open>_generate_image_description\<close>: any exception of the two lookups or of the
  captioning is caught and replaced by the default description.
\<close>

definition generate_image_description :: "env \<Rightarrow> ModelManager \<Rightarrow> image \<Rightarrow> string \<times> ModelManager" where
  "generate_image_description ev mm img =
     (case get_model ev mm ''florence-2'' of
        (Inl e, mm1) \<Rightarrow> (default_description, mm1)
      | (Inr florence_model, mm1) \<Rightarrow>
          (case get_processor ev mm1 ''florence-2'' of
             (Inl e, mm2) \<Rightarrow> (default_description, mm2)
           | (Inr florence_processor, mm2) \<Rightarrow>
               (case florence_caption ev img of
                  Inl e \<Rightarrow> (default_description, mm2)
                | Inr parsed_answer \<Rightarrow> (parsed_answer, mm2))))"

definition default_prompts :: "string \<Rightarrow> string \<Rightarrow> json" where
  "default_prompts sty room =
     JObject
       [(''clip'', JString (''A '' @ sty @ '' '' @ room
            @ '' with elegant furniture, balanced lighting, and harmonious colors.'')),
        (''t5'', JString (''Transform this '' @ room @ '' into a '' @ sty
            @ '' style space. Include furniture appropriate for a '' @ room
            @ '', with balanced composition, proper lighting, and a cohesive color scheme that matches the ''
            @ sty @ '' aesthetic.''))]"

text \<open>\<open>color_palette\<close> is falsy when it is \<open>None\<close> or the empty string.\<close>

definition color_instruction :: "string option \<Rightarrow> string" where
  "color_instruction palette =
     (case palette of
        Some c \<Rightarrow>
          if c \<noteq> [] then
            ''and incorporate the specific color '' @ [CHR 0x27] @ c @ [CHR 0x27]
              @ '' as a dominant theme throughout the entire room''
          else ''and use colors that are appropriate for the specified style''
      | None \<Rightarrow> ''and use colors that are appropriate for the specified style'')"

text \<open>
  \<open>_generate_design_prompts\<close>. The inner handler catches the \<open>IndexError\<close> of
  an empty \<open>choices\<close> and the \<open>JSONDecodeError\<close>; the outer one catches every
  other exception, among them the \<open>TypeError\<close> of \<open>json.loads(None)\<close>. All
  handlers return the default prompts. A text that parses is returned as it is.
\<close>

definition generate_design_prompts ::
  "env \<Rightarrow> bool \<Rightarrow> string \<Rightarrow> string \<Rightarrow> string \<Rightarrow> string option \<Rightarrow> json" where
  "generate_design_prompts ev client description sty room palette =
     (if \<not> client then default_prompts sty room
      else
        case chat_completions_create ev description sty room (color_instruction palette) of
          Inl e \<Rightarrow> default_prompts sty room
        | Inr choices \<Rightarrow>
            (case choices of
               [] \<Rightarrow> default_prompts sty room
             | content # _ \<Rightarrow>
                 (case content of
                    None \<Rightarrow> default_prompts sty room
                  | Some text \<Rightarrow>
                      (case json_loads ev text of
                         Inl e \<Rightarrow> default_prompts sty room
                       | Inr result \<Rightarrow> result))))"

definition create_control_image :: "env \<Rightarrow> image \<Rightarrow> exn + image" where
  "create_control_image ev img = canny_detector ev img"

text \<open>\<open>_generate_redesigned_image\<close>; \<open>result.images[0]\<close> raises on an empty list.\<close>

definition generate_redesigned_image ::
  "env \<Rightarrow> ModelManager \<Rightarrow> image \<Rightarrow> json \<Rightarrow> json \<Rightarrow> (exn + image) \<times> ModelManager" where
  "generate_redesigned_image ev mm control_image clip_prompt t5_prompt =
     (case get_pipeline ev mm ''flux-canny'' of
        (Inl e, mm1) \<Rightarrow> (Inl e, mm1)
      | (Inr pipe, mm1) \<Rightarrow>
          (case flux_pipe ev clip_prompt t5_prompt control_image of
             Inl e \<Rightarrow> (Inl e, mm1)
           | Inr images \<Rightarrow>
               (case images of
                  [] \<Rightarrow> (Inl (Exn ''IndexError'' ''list index out of range''), mm1)
                | first # _ \<Rightarrow> (Inr first, mm1))))"

text \<open>
  The numbered steps of the \<open>try\<close> block of \<open>_process_redesign\<close>. The block is
  modelled by \<open>redesign_steps\<close>, which returns the output path or the exception that
  left the block, the model manager as the steps leave it, and the steps that were
  started, in order. Step 5 starts with the evaluation of its arguments
  \<open>prompts["clip"]\<close> and \<open>prompts["t5"]\<close>.
\<close>

datatype step = Resize | Describe | Prompts | Control | Generate | Save

definition redesign_steps ::
  "env \<Rightarrow> settings \<Rightarrow> ModelManager \<Rightarrow> bool \<Rightarrow> job
     \<Rightarrow> (exn + string) \<times> ModelManager \<times> step list" where
  "redesign_steps ev st mm client j =
     (case resize_image (pil_resize ev) (input_image j) 1400 of
        Inl e \<Rightarrow> (Inl e, mm, [Resize])
      | Inr resized_image \<Rightarrow>
          let (description, mm1) = generate_image_description ev mm resized_image;
              prompts = generate_design_prompts ev client description (style j) (room_type j)
                          (color_palette j)
          in (case create_control_image ev resized_image of
               Inl e \<Rightarrow> (Inl e, mm1, [Resize, Describe, Prompts, Control])
             | Inr control_image \<Rightarrow>
                 (case getitem prompts ''clip'' of
                    Inl e \<Rightarrow> (Inl e, mm1, [Resize, Describe, Prompts, Control, Generate])
                  | Inr clip_prompt \<Rightarrow>
                      (case getitem prompts ''t5'' of
                         Inl e \<Rightarrow> (Inl e, mm1, [Resize, Describe, Prompts, Control, Generate])
                       | Inr t5_prompt \<Rightarrow>
                           (case generate_redesigned_image ev mm1 control_image clip_prompt t5_prompt of
                              (Inl e, mm2) \<Rightarrow>
                                (Inl e, mm2, [Resize, Describe, Prompts, Control, Generate])
                            | (Inr output_image, mm2) \<Rightarrow>
                                (case save_image (image_save ev) st output_image
                                        (''outputs/'' @ request_id j @ ''_output.png'') of
                                   Inl e \<Rightarrow>
                                     (Inl e, mm2, [Resize, Describe, Prompts, Control, Generate, Save])
                                 | Inr output_path \<Rightarrow>
                                     (Inr output_path, mm2,
                                      [Resize, Describe, Prompts, Control, Generate, Save])))))))"

text \<open>
  \<open>_process_redesign\<close>. The coroutine has no \<open>await\<close>: once the event loop starts
  it, it runs to its end. Line 91 is outside the \<open>try\<close>, so its \<open>KeyError\<close>
  leaves the coroutine. \<open>now\<close> is the \<open>time.time()\<close> of line 123.
\<close>

definition process_redesign ::
  "env \<Rightarrow> settings \<Rightarrow> rat \<Rightarrow> PopulatedRoomService \<Rightarrow> job \<Rightarrow> exn + PopulatedRoomService" where
  "process_redesign ev st now svc j =
     (case tasks svc (task_id j) of
        None \<Rightarrow> Inl (Exn ''KeyError'' (quote (task_id j)))
      | Some _ \<Rightarrow>
          (let svc1 = set_status svc (task_id j) ''processing'';
               (result, mm', started) = redesign_steps ev st (model_manager svc1) (openai_client svc1) j;
               svc2 = svc1\<lparr>model_manager := mm'\<rparr>
           in (case result of
                 Inr output_path \<Rightarrow>
                   Inr (setitem
                          (setitem (set_status svc2 (task_id j) ''completed'')
                             (task_id j) ''output_path'' (Str output_path))
                          (task_id j) ''completed_at'' (Float now))
               | Inl e \<Rightarrow>
                   Inr (setitem (set_status svc2 (task_id j) ''failed'')
                          (task_id j) ''error'' (Str (str_exn e))))))"

definition get_task_status :: "PopulatedRoomService \<Rightarrow> string \<Rightarrow> pydict" where
  "get_task_status svc tid =
     (case tasks svc tid of
        None \<Rightarrow> [''status'' \<mapsto> Str ''not_found'']
      | Some task_info \<Rightarrow> task_info)"

section \<open>The event loop\<close>

text \<open>
  One service object and the coroutines scheduled on it and not yet run, oldest first.
  An event is a call of \<open>submit_redesign_task\<close> (with the values that \<open>uuid4\<close> and
  \<open>time.time()\<close> return in it and its arguments) or the event loop running the
  oldest scheduled coroutine (with what the libraries return during it, and the
  \<open>time.time()\<close> of its end).
\<close>

record loop =
  service :: PopulatedRoomService
  ready :: "job list"

datatype event =
  Submit string rat image string string string "string option"
| RunNext env rat

fun step_loop :: "settings \<Rightarrow> loop \<Rightarrow> event \<Rightarrow> loop" where
  "step_loop st w (Submit uuid now img req_id sty room palette) =
     (case submit_redesign_task uuid now (service w) img req_id sty room palette of
        (tid, svc', j) \<Rightarrow> \<lparr>service = svc', ready = ready w @ [j]\<rparr>)"
| "step_loop st w (RunNext ev now) =
     (case ready w of
        [] \<Rightarrow> w
      | j # rest \<Rightarrow>
          (case process_redesign ev st now (service w) j of
             Inl e \<Rightarrow> \<lparr>service = service w, ready = rest\<rparr>
           | Inr svc' \<Rightarrow> \<lparr>service = svc', ready = rest\<rparr>))"

definition run :: "settings \<Rightarrow> loop \<Rightarrow> event list \<Rightarrow> loop" where
  "run st w evs = foldl (step_loop st) w evs"

definition init_loop :: "string option \<Rightarrow> loop" where
  "init_loop api_key = \<lparr>service = PopulatedRoomService_init api_key, ready = []\<rparr>"

text \<open>The task ids that the calls of \<open>submit_redesign_task\<close> in a run return.\<close>

fun issued :: "event list \<Rightarrow> string list" where
  "issued [] = []"
| "issued (Submit uuid now img req_id sty room palette # evs) = uuid # issued evs"
| "issued (RunNext ev now # evs) = issued evs"

text \<open>The values assigned to the status of one task, oldest first.\<close>

definition status_history :: "PopulatedRoomService \<Rightarrow> string \<Rightarrow> string list" where
  "status_history svc tid = map snd (filter (\<lambda>w. fst w = tid) (status_writes svc))"

section \<open>\<open>app/models/response_models.py\<close> and the endpoints\<close>

text \<open>
  A response model is built from keyword arguments and serialised to a JSON object
  with one member per field, \<open>null\<close> for an optional field that was not given.
  Building it fails with a validation error when a field that is not optional is
  \<open>None\<close> or has another type.
\<close>

definition is_str :: "pyval \<Rightarrow> bool" where
  "is_str v = (case v of Str _ \<Rightarrow> True | _ \<Rightarrow> False)"

definition is_float :: "pyval \<Rightarrow> bool" where
  "is_float v = (case v of Float _ \<Rightarrow> True | _ \<Rightarrow> False)"

definition TaskStatusResponse :: "pydict \<Rightarrow> exn + pydict" where
  "TaskStatusResponse kw =
     (if is_str (dict_get kw ''task_id'') \<and> is_str (dict_get kw ''status'')
         \<and> is_float (dict_get kw ''created_at'')
         \<and> (is_str (dict_get kw ''output_url'') \<or> dict_get kw ''output_url'' = PyNone)
         \<and> (is_str (dict_get kw ''error'') \<or> dict_get kw ''error'' = PyNone)
         \<and> (is_float (dict_get kw ''completed_at'') \<or> dict_get kw ''completed_at'' = PyNone)
      then Inr [''task_id'' \<mapsto> dict_get kw ''task_id'',
                ''status'' \<mapsto> dict_get kw ''status'',
                ''output_url'' \<mapsto> dict_get kw ''output_url'',
                ''error'' \<mapsto> dict_get kw ''error'',
                ''created_at'' \<mapsto> dict_get kw ''created_at'',
                ''completed_at'' \<mapsto> dict_get kw ''completed_at'']
      else Inl (Exn ''ValidationError'' ''validation error for TaskStatusResponse''))"

definition ImageResponse :: "string \<Rightarrow> string \<Rightarrow> string \<Rightarrow> rat \<Rightarrow> pydict" where
  "ImageResponse message output_url tid processing_time =
     [''message'' \<mapsto> Str message, ''output_url'' \<mapsto> Str output_url,
      ''task_id'' \<mapsto> Str tid, ''processing_time'' \<mapsto> Float processing_time]"

text \<open>
  The dependency of both endpoint modules: every call builds a new service object,
  and FastAPI calls it once for each request.
\<close>

definition get_populated_room_service :: "string option \<Rightarrow> PopulatedRoomService" where
  "get_populated_room_service api_key = PopulatedRoomService_init api_key"

text \<open>
  The handler of \<open>GET /tasks/{task_id}\<close> in \<open>endpoints/tasks.py\<close>, as a function
  of the service object it is given.
\<close>

definition get_task_status_endpoint :: "string \<Rightarrow> PopulatedRoomService \<Rightarrow> exn + pydict" where
  "get_task_status_endpoint tid svc =
     (let task_info = get_task_status svc tid
      in if dict_get task_info ''status'' = Str ''not_found'' then
           Inl (HTTPException 404 (''Task with ID '' @ tid @ '' not found''))
         else
           let response = [''task_id'' \<mapsto> Str tid,
                           ''status'' \<mapsto> dict_get task_info ''status'',
                           ''created_at'' \<mapsto> dict_get task_info ''created_at''];
               response1 = (if task_info ''output_path'' \<noteq> None
                            then response(''output_url'' \<mapsto> dict_get task_info ''output_url'')
                            else response);
               response2 = (if task_info ''completed_at'' \<noteq> None
                            then response1(''completed_at'' \<mapsto> dict_get task_info ''completed_at'')
                            else response1);
               response3 = (if task_info ''error'' \<noteq> None
                            then response2(''error'' \<mapsto> dict_get task_info ''error'')
                            else response2)
           in TaskStatusResponse response3)"

text \<open>The route as the application serves it: the dependency is resolved for the request.\<close>

definition tasks_route :: "string option \<Rightarrow> string \<Rightarrow> exn + pydict" where
  "tasks_route api_key tid = get_task_status_endpoint tid (get_populated_room_service api_key)"

text \<open>
  The handler of \<open>POST /redesign/populated/\<close>. \<open>upload\<close> is the outcome of
  reading the file and of \<open>Image.open\<close>; \<open>request_uuid\<close> and \<open>task_uuid\<close> are
  the two \<open>uuid4\<close> values; \<open>start_time\<close>, \<open>created\<close> and \<open>end_time\<close> are the
  three readings of \<open>time.time()\<close> (their difference is taken as exact). The
  handler returns the response or the exception it raises, the service object, and the
  coroutines it has scheduled. Every exception of the body, the \<open>HTTPException\<close> of
  \<open>validate_image\<close> included, is caught by \<open>except Exception\<close>.
\<close>

definition internal_error :: "exn \<Rightarrow> exn" where
  "internal_error e = HTTPException 500 (''Error processing redesign request: '' @ str_exn e)"

definition redesign_populated_room ::
  "env \<Rightarrow> settings \<Rightarrow> exn + image \<Rightarrow> string \<Rightarrow> string \<Rightarrow> string option
     \<Rightarrow> PopulatedRoomService \<Rightarrow> string \<Rightarrow> string \<Rightarrow> rat \<Rightarrow> rat \<Rightarrow> rat
     \<Rightarrow> (exn + pydict) \<times> PopulatedRoomService \<times> job list" where
  "redesign_populated_room ev st upload sty room palette svc request_uuid task_uuid
      start_time created end_time =
     (case upload of
        Inl e \<Rightarrow> (Inl (internal_error e), svc, [])
      | Inr img \<Rightarrow>
          (case validate_image img 256 4096 of
             Inl e \<Rightarrow> (Inl (internal_error e), svc, [])
           | Inr _ \<Rightarrow>
               (case save_image (image_save ev) st img (''inputs/'' @ request_uuid @ ''_input.png'') of
                  Inl e \<Rightarrow> (Inl (internal_error e), svc, [])
                | Inr input_path \<Rightarrow>
                    (case submit_redesign_task task_uuid created svc img request_uuid sty room palette of
                       (tid, svc', j) \<Rightarrow>
                         (Inr (ImageResponse ''Room redesign processing started''
                                 (get_image_url st (request_uuid @ ''_output.png''))
                                 tid (end_time - start_time)),
                          svc', [j])))))"

definition redesign_populated_route ::
  "env \<Rightarrow> settings \<Rightarrow> string option \<Rightarrow> exn + image \<Rightarrow> string \<Rightarrow> string \<Rightarrow> string option
     \<Rightarrow> string \<Rightarrow> string \<Rightarrow> rat \<Rightarrow> rat \<Rightarrow> rat
     \<Rightarrow> (exn + pydict) \<times> PopulatedRoomService \<times> job list" where
  "redesign_populated_route ev st api_key upload sty room palette request_uuid task_uuid
      start_time created end_time =
     redesign_populated_room ev st upload sty room palette (get_populated_room_service api_key)
       request_uuid task_uuid start_time created end_time"

text \<open>The status code of what a handler returns: 200 for a response.\<close>

definition status_code :: "exn + pydict \<Rightarrow> nat" where
  "status_code r =
     (case r of
        Inr _ \<Rightarrow> 200
      | Inl (HTTPException code _) \<Rightarrow> code
      | Inl (Exn _ _) \<Rightarrow> 500)"

section \<open>Concrete inputs\<close>

text \<open>
  Inputs on which the functions are evaluated below: the settings of a local
  deployment, a JPEG of 2000 by 1000 pixels, and three behaviours of the libraries.
  In \<open>env_ok\<close> every call succeeds, except that the hosted text generation cannot
  be reached. In \<open>env_assert\<close> the edge detector fails on an \<open>assert\<close> that has
  no message, as the bare assertions of its image conversion do for an image with two
  channels. In \<open>env_no_loading\<close> no model, processor or pipeline can be
  constructed.
\<close>

definition example_settings :: settings where
  "example_settings = \<lparr>API_BASE_URL = ''http://localhost:8000'', DATA_DIR = ''/app/data''\<rparr>"

definition example_image :: image where
  "example_image = \<lparr>width = 2000, height = 1000, format = Some ''JPEG''\<rparr>"

definition env_ok :: env where
  "env_ok =
     \<lparr>pil_resize = (\<lambda>img sz. Inr \<lparr>width = fst sz, height = snd sz, format = None\<rparr>),
      florence_from_pretrained = None,
      processor_from_pretrained = None,
      canny_new = None,
      flux_from_pretrained = None,
      florence_caption = (\<lambda>img. Inr ''A living room with a sofa.''),
      chat_completions_create =
        (\<lambda>description sty room colour. Inl (Exn ''APIConnectionError'' ''Connection error.'')),
      json_loads = (\<lambda>text. Inl (Exn ''JSONDecodeError'' ''Expecting value'')),
      canny_detector = (\<lambda>img. Inr \<lparr>width = 1024, height = 1024, format = None\<rparr>),
      flux_pipe = (\<lambda>clip t5 control. Inr [\<lparr>width = 1024, height = 1024, format = None\<rparr>]),
      image_save = (\<lambda>img path. None)\<rparr>"

definition env_assert :: env where
  "env_assert = env_ok\<lparr>canny_detector := (\<lambda>img. Inl (Exn ''AssertionError'' []))\<rparr>"


section \<open>The invariant of the task registry\<close>

text \<open>
  What holds of one task id between two events: an id without a record has had no
  status assigned and no coroutine scheduled; the record of a scheduled coroutine has
  had the one assignment \<open>pending\<close>; any other record has gone through
  \<open>pending\<close>, \<open>processing\<close> and one of \<open>completed\<close> and \<open>failed\<close>; the
  status of a record is the last value assigned to it; and the keys of a record are
  those that \<open>submit_redesign_task\<close> and the branch of \<open>_process_redesign\<close>
  for that status assign (\<open>record_keys\<close>).
\<close>

definition record_keys :: "string \<Rightarrow> string set" where
  "record_keys s =
     {''status'', ''request_id'', ''created_at''} \<union>
     (if s = ''completed'' then {''output_path'', ''completed_at''}
      else if s = ''failed'' then {''error''} else {})"

definition task_inv :: "loop \<Rightarrow> string \<Rightarrow> bool" where
  "task_inv w tid =
     (case tasks (service w) tid of
        None \<Rightarrow> status_history (service w) tid = [] \<and> tid \<notin> task_id ` set (ready w)
      | Some r \<Rightarrow>
          (if tid \<in> task_id ` set (ready w)
           then status_history (service w) tid = [''pending'']
           else status_history (service w) tid = [''pending'', ''processing'', ''completed'']
              \<or> status_history (service w) tid = [''pending'', ''processing'', ''failed''])
          \<and> r ''status'' = Some (Str (last (status_history (service w) tid)))
          \<and> dom r = record_keys (last (status_history (service w) tid)))"

definition loop_inv :: "loop \<Rightarrow> bool" where
  "loop_inv w = (distinct (map task_id (ready w)) \<and> (\<forall>tid. task_inv w tid))"

text \<open>
  The order of the states, as the specification gives it: a history of status values
  moves forward when it is a beginning of \<open>pending, processing, completed\<close> or of
  \<open>pending, processing, failed\<close>.
\<close>

definition forward_history :: "string list \<Rightarrow> bool" where
  "forward_history h =
     (h \<in> set [[''pending''], [''pending'', ''processing''],
               [''pending'', ''processing'', ''completed''],
               [''pending'', ''processing'', ''failed'']])"

text \<open>
  A run of the event loop: one task is submitted, then the loop runs its coroutine
  while every library call succeeds.
\<close>

definition example_run :: "event list" where
  "example_run = [Submit ''t1'' 11 example_image ''r1'' ''modern'' ''living room'' None,
                  RunNext env_ok 20]"

text \<open>
  The ways in which the hosted text generation fails inside
  \<open>_generate_design_prompts\<close>, for one description: the call raises, the response
  has no choice, its content is \<open>None\<close>, or \<open>json.loads\<close> rejects the content.
\<close>

definition text_generation_fails :: "env \<Rightarrow> string \<Rightarrow> string \<Rightarrow> string \<Rightarrow> string option \<Rightarrow> bool" where
  "text_generation_fails ev description sty room palette =
     (case chat_completions_create ev description sty room (color_instruction palette) of
        Inl e \<Rightarrow> True
      | Inr [] \<Rightarrow> True
      | Inr (None # _) \<Rightarrow> True
      | Inr (Some text # _) \<Rightarrow> (case json_loads ev text of Inl e \<Rightarrow> True | Inr _ \<Rightarrow> False))"

text \<open>The job that \<open>example_run\<close> schedules, and a run in which its edge detection fails.\<close>

definition example_job :: job where
  "example_job = \<lparr>task_id = ''t1'', input_image = example_image, request_id = ''r1'',
                   style = ''modern'', room_type = ''living room'', color_palette = None\<rparr>"

definition example_failing_run :: "event list" where
  "example_failing_run = [Submit ''t1'' 11 example_image ''r1'' ''modern'' ''living room'' None,
                          RunNext env_assert 20]"

text \<open>
  The service object right after \<open>submit_redesign_task\<close> has created the record of
  \<open>example_job\<close>, and that record.
\<close>

definition example_pending_service :: PopulatedRoomService where
  "example_pending_service =
     fst (snd (submit_redesign_task ''t1'' 11 (PopulatedRoomService_init None) example_image
                 ''r1'' ''modern'' ''living room'' None))"

definition example_pending_record :: pydict where
  "example_pending_record =
     [''status'' \<mapsto> Str ''pending'', ''request_id'' \<mapsto> Str ''r1'', ''created_at'' \<mapsto> Float 11]"

text \<open>
  Two behaviours of the libraries agree on a list of steps when every library call
  that these steps make returns the same in both. A run of the steps that does not
  depend on the calls of a step has not executed that step.
\<close>

definition agree_on :: "step list \<Rightarrow> env \<Rightarrow> env \<Rightarrow> bool" where
  "agree_on steps ev ev' =
     ((Resize \<in> set steps \<longrightarrow> pil_resize ev' = pil_resize ev) \<and>
      (Describe \<in> set steps \<longrightarrow>
         florence_from_pretrained ev' = florence_from_pretrained ev \<and>
         processor_from_pretrained ev' = processor_from_pretrained ev \<and>
         florence_caption ev' = florence_caption ev) \<and>
      (Prompts \<in> set steps \<longrightarrow>
         chat_completions_create ev' = chat_completions_create ev \<and>
         json_loads ev' = json_loads ev) \<and>
      (Control \<in> set steps \<longrightarrow> canny_detector ev' = canny_detector ev) \<and>
      (Generate \<in> set steps \<longrightarrow>
         flux_from_pretrained ev' = flux_from_pretrained ev \<and> flux_pipe ev' = flux_pipe ev) \<and>
      (Save \<in> set steps \<longrightarrow> image_save ev' = image_save ev))"

text \<open>A behaviour that differs from \<open>env_assert\<close> in what the later steps would get.\<close>

definition env_assert_later :: env where
  "env_assert_later =
     env_assert\<lparr>flux_from_pretrained := Some (Exn ''OSError'' ''cannot load FLUX.1-Canny-dev''),
                image_save := (\<lambda>img path. Some (Exn ''OSError'' ''No space left on device''))\<rparr>"

text \<open>
  The steps other than the prompt generation succeed for a job when the prompts are
  the default ones: the resizing and the edge detection return an image, the Flux
  pipeline can be loaded, it returns an image for the two default prompts, and that
  image can be saved. (The captioning step cannot fail: it falls back to the default
  description.)
\<close>

definition other_steps_succeed :: "env \<Rightarrow> settings \<Rightarrow> job \<Rightarrow> bool" where
  "other_steps_succeed ev st j =
     (case resize_image (pil_resize ev) (input_image j) 1400 of
        Inl e \<Rightarrow> False
      | Inr resized_image \<Rightarrow>
          (case canny_detector ev resized_image of
             Inl e \<Rightarrow> False
           | Inr control_image \<Rightarrow>
               flux_from_pretrained ev = None \<and>
               (case getitem (default_prompts (style j) (room_type j)) ''clip'' of
                  Inl e \<Rightarrow> False
                | Inr clip_prompt \<Rightarrow>
                    (case getitem (default_prompts (style j) (room_type j)) ''t5'' of
                       Inl e \<Rightarrow> False
                     | Inr t5_prompt \<Rightarrow>
                         (case flux_pipe ev clip_prompt t5_prompt control_image of
                            Inl e \<Rightarrow> False
                          | Inr [] \<Rightarrow> False
                          | Inr (output_image # _) \<Rightarrow>
                              image_save ev output_image
                                (path_join (DATA_DIR st)
                                   (''outputs/'' @ request_id j @ ''_output.png'')) = None)))))"

text \<open>
  The steps up to and including a given one, and what it means that a step raises an
  exception \<open>e\<close>: the steps before it have returned, and the call of the step, on
  what they returned, raises \<open>e\<close>. Steps 2 and 3 never raise:
  \<open>_generate_image_description\<close> and \<open>_generate_design_prompts\<close> catch every
  exception of the calls they make and return a default instead. Step 5 raises when
  one of its arguments \<open>prompts["clip"]\<close> and \<open>prompts["t5"]\<close> does or when
  \<open>_generate_redesigned_image\<close> does.
\<close>

fun steps_upto :: "step \<Rightarrow> step list" where
  "steps_upto Resize = [Resize]"
| "steps_upto Describe = [Resize, Describe]"
| "steps_upto Prompts = [Resize, Describe, Prompts]"
| "steps_upto Control = [Resize, Describe, Prompts, Control]"
| "steps_upto Generate = [Resize, Describe, Prompts, Control, Generate]"
| "steps_upto Save = [Resize, Describe, Prompts, Control, Generate, Save]"

definition generate_raises ::
  "env \<Rightarrow> ModelManager \<Rightarrow> image \<Rightarrow> json \<Rightarrow> exn \<Rightarrow> bool" where
  "generate_raises ev mm1 control_image prompts e =
     (case getitem prompts ''clip'' of
        Inl e1 \<Rightarrow> e1 = e
      | Inr clip_prompt \<Rightarrow>
          (case getitem prompts ''t5'' of
             Inl e2 \<Rightarrow> e2 = e
           | Inr t5_prompt \<Rightarrow>
               fst (generate_redesigned_image ev mm1 control_image clip_prompt t5_prompt) = Inl e))"

definition save_raises ::
  "env \<Rightarrow> settings \<Rightarrow> ModelManager \<Rightarrow> image \<Rightarrow> json \<Rightarrow> string \<Rightarrow> exn \<Rightarrow> bool" where
  "save_raises ev st mm1 control_image prompts req_id e =
     (case getitem prompts ''clip'' of
        Inl e1 \<Rightarrow> False
      | Inr clip_prompt \<Rightarrow>
          (case getitem prompts ''t5'' of
             Inl e2 \<Rightarrow> False
           | Inr t5_prompt \<Rightarrow>
               (case fst (generate_redesigned_image ev mm1 control_image clip_prompt t5_prompt) of
                  Inl e3 \<Rightarrow> False
                | Inr output_image \<Rightarrow>
                    save_image (image_save ev) st output_image
                      (''outputs/'' @ req_id @ ''_output.png'') = Inl e)))"

definition step_raises ::
  "env \<Rightarrow> settings \<Rightarrow> ModelManager \<Rightarrow> bool \<Rightarrow> job \<Rightarrow> step \<Rightarrow> exn \<Rightarrow> bool" where
  "step_raises ev st mm client j s e =
     (case resize_image (pil_resize ev) (input_image j) 1400 of
        Inl e1 \<Rightarrow> s = Resize \<and> e1 = e
      | Inr resized_image \<Rightarrow>
          (let (description, mm1) = generate_image_description ev mm resized_image;
               prompts = generate_design_prompts ev client description (style j) (room_type j)
                           (color_palette j)
           in (case create_control_image ev resized_image of
                 Inl e4 \<Rightarrow> s = Control \<and> e4 = e
               | Inr control_image \<Rightarrow>
                   (s = Generate \<and> generate_raises ev mm1 control_image prompts e) \<or>
                   (s = Save \<and> save_raises ev st mm1 control_image prompts (request_id j) e))))"

text \<open>
  A behaviour in which the captioning model cannot be loaded, and a run in which the
  coroutine of the one task meets it.
\<close>

definition env_no_captioner :: env where
  "env_no_captioner =
     env_ok\<lparr>florence_from_pretrained := Some (Exn ''OSError'' ''cannot load Florence-2-base'')\<rparr>"

definition example_uncaptioned_run :: "event list" where
  "example_uncaptioned_run = [Submit ''t1'' 11 example_image ''r1'' ''modern'' ''living room'' None,
                              RunNext env_no_captioner 20]"

text \<open>
  The ways in which the captioning fails inside \<open>_generate_image_description\<close>:
  the model or the processor cannot be obtained, or the captioning itself raises.
\<close>

definition captioning_fails :: "env \<Rightarrow> ModelManager \<Rightarrow> image \<Rightarrow> bool" where
  "captioning_fails ev mm img =
     (case get_model ev mm ''florence-2'' of
        (Inl e, mm1) \<Rightarrow> True
      | (Inr florence_model, mm1) \<Rightarrow>
          (case get_processor ev mm1 ''florence-2'' of
             (Inl e, mm2) \<Rightarrow> True
           | (Inr florence_processor, mm2) \<Rightarrow>
               (case florence_caption ev img of Inl e \<Rightarrow> True | Inr parsed_answer \<Rightarrow> False)))"

section \<open>Properties of \<open>_process_redesign\<close> and of the event loop\<close>

text \<open>
  The two ways in which \<open>_process_redesign\<close> ends for a task id that has a record,
  written out as one update of the service object each.
\<close>
lemma process_redesign_ok:
  assumes "tasks svc (task_id j) = Some r"
    and "redesign_steps ev st (model_manager svc) (openai_client svc) j = (Inr p, mm', started)"
  shows "process_redesign ev st now svc j =
     Inr (svc\<lparr>model_manager := mm',
              tasks := (tasks svc)(task_id j \<mapsto>
                 r(''status'' \<mapsto> Str ''completed'', ''output_path'' \<mapsto> Str p,
                   ''completed_at'' \<mapsto> Float now)),
              status_writes := status_writes svc @
                 [(task_id j, ''processing''), (task_id j, ''completed'')]\<rparr>)"
  using assms by (simp add: process_redesign_def set_status_def setitem_def)

lemma process_redesign_failed:
  assumes "tasks svc (task_id j) = Some r"
    and "redesign_steps ev st (model_manager svc) (openai_client svc) j = (Inl e, mm', started)"
  shows "process_redesign ev st now svc j =
     Inr (svc\<lparr>model_manager := mm',
              tasks := (tasks svc)(task_id j \<mapsto>
                 r(''status'' \<mapsto> Str ''failed'', ''error'' \<mapsto> Str (str_exn e))),
              status_writes := status_writes svc @
                 [(task_id j, ''processing''), (task_id j, ''failed'')]\<rparr>)"
  using assms by (simp add: process_redesign_def set_status_def setitem_def)

lemma step_loop_Submit:
  "step_loop st w (Submit uuid now img req_id sty room palette) =
     \<lparr>service = (service w)\<lparr>tasks := (tasks (service w))(uuid \<mapsto>
                         [''status'' \<mapsto> Str ''pending'',
                          ''request_id'' \<mapsto> Str req_id,
                          ''created_at'' \<mapsto> Float now]),
                      status_writes := status_writes (service w) @ [(uuid, ''pending'')]\<rparr>,
      ready = ready w @ [\<lparr>task_id = uuid, input_image = img, request_id = req_id, style = sty,
           room_type = room, color_palette = palette\<rparr>]\<rparr>"
  by (simp add: submit_redesign_task_def)

lemma record_keys_simps [simp]:
  "record_keys ''pending'' = {''status'', ''request_id'', ''created_at''}"
  "record_keys ''completed'' =
     {''status'', ''request_id'', ''created_at'', ''output_path'', ''completed_at''}"
  "record_keys ''failed'' = {''status'', ''request_id'', ''created_at'', ''error''}"
  by (auto simp: record_keys_def)

lemma loop_inv_init: "loop_inv (init_loop k)"
  by (simp add: loop_inv_def task_inv_def init_loop_def PopulatedRoomService_init_def status_history_def)

lemma loop_inv_submit:
  assumes inv: "loop_inv w" and fresh: "tasks (service w) uuid = None"
  shows "loop_inv (step_loop st w (Submit uuid now img req_id sty room palette))"
proof -
  let ?w' = "step_loop st w (Submit uuid now img req_id sty room palette)"
  from inv have ti: "task_inv w tid" for tid by (simp add: loop_inv_def)
  from ti[of uuid] fresh have nohist: "status_history (service w) uuid = []"
    and notready: "uuid \<notin> task_id ` set (ready w)"
    by (auto simp: task_inv_def)
  have d: "distinct (map task_id (ready ?w'))"
    using inv notready by (simp add: loop_inv_def step_loop_Submit del: step_loop.simps)
  have "task_inv ?w' tid" for tid
  proof (cases "tid = uuid")
    case True
    then show ?thesis using nohist
      by (auto simp: step_loop_Submit task_inv_def status_history_def simp del: step_loop.simps)
  next
    case False
    with ti[of tid] show ?thesis
      by (auto simp: step_loop_Submit task_inv_def status_history_def simp del: step_loop.simps split: option.splits)
  qed
  with d show ?thesis unfolding loop_inv_def by blast
qed

lemma loop_inv_run:
  assumes inv: "loop_inv w"
  shows "loop_inv (step_loop st w (RunNext ev now))"
proof (cases "ready w")
  case Nil
  then show ?thesis using inv by simp
next
  case (Cons j rest)
  from inv have ti: "task_inv w tid" for tid by (simp add: loop_inv_def)
  from inv Cons have dist: "task_id j \<notin> task_id ` set rest" "distinct (map task_id rest)"
    by (auto simp: loop_inv_def)
  from ti[of "task_id j"] Cons obtain r where r: "tasks (service w) (task_id j) = Some r"
    and h: "status_history (service w) (task_id j) = [''pending'']"
    and domr: "dom r = {''status'', ''request_id'', ''created_at''}"
    by (auto simp: task_inv_def split: option.splits)
  obtain res mm' started where steps:
    "redesign_steps ev st (model_manager (service w)) (openai_client (service w)) j = (res, mm', started)"
    by (cases "redesign_steps ev st (model_manager (service w)) (openai_client (service w)) j") auto
  let ?w' = "step_loop st w (RunNext ev now)"
  have rdy: "ready ?w' = rest"
    using Cons by (simp split: sum.splits)
  have other: "task_inv ?w' tid" if "tid \<noteq> task_id j" for tid
  proof (cases res)
    case (Inl e)
    from process_redesign_failed[OF r steps[unfolded Inl], of now] ti[of tid] that Cons
    show ?thesis
      by (auto simp: task_inv_def status_history_def split: option.splits)
  next
    case (Inr p)
    from process_redesign_ok[OF r steps[unfolded Inr], of now] ti[of tid] that Cons
    show ?thesis
      by (auto simp: task_inv_def status_history_def split: option.splits)
  qed
  have self: "task_inv ?w' (task_id j)"
  proof (cases res)
    case (Inl e)
    from process_redesign_failed[OF r steps[unfolded Inl], of now] h dist Cons domr
    show ?thesis
      by (auto simp: task_inv_def status_history_def)
  next
    case (Inr p)
    from process_redesign_ok[OF r steps[unfolded Inr], of now] h dist Cons domr
    show ?thesis
      by (auto simp: task_inv_def status_history_def)
  qed
  from other self have "task_inv ?w' tid" for tid by (cases "tid = task_id j") auto
  with dist rdy show ?thesis unfolding loop_inv_def by (auto simp del: step_loop.simps)
qed


lemma dom_step_loop:
  "dom (tasks (service (step_loop st w e))) = dom (tasks (service w)) \<union> set (issued [e])"
proof (cases e)
  case (Submit uuid now img req_id sty room palette)
  then show ?thesis by (auto simp: step_loop_Submit simp del: step_loop.simps)
next
  case (RunNext ev now)
  show ?thesis
  proof (cases "ready w")
    case Nil
    with RunNext show ?thesis by simp
  next
    case (Cons j rest)
    show ?thesis
    proof (cases "tasks (service w) (task_id j)")
      case None
      with Cons RunNext show ?thesis by (simp add: process_redesign_def)
    next
      case (Some r)
      obtain res mm' started where steps:
        "redesign_steps ev st (model_manager (service w)) (openai_client (service w)) j = (res, mm', started)"
        by (cases "redesign_steps ev st (model_manager (service w)) (openai_client (service w)) j") auto
      show ?thesis
      proof (cases res)
        case (Inl e)
        from process_redesign_failed[OF Some steps[unfolded Inl], of now] Some Cons RunNext
        show ?thesis by auto
      next
        case (Inr p)
        from process_redesign_ok[OF Some steps[unfolded Inr], of now] Some Cons RunNext
        show ?thesis by auto
      qed
    qed
  qed
qed

lemma issued_append: "issued (xs @ ys) = issued xs @ issued ys"
  by (induction xs rule: issued.induct) auto

lemma run_inv:
  assumes "loop_inv w" and "distinct (issued evs)"
    and "set (issued evs) \<inter> dom (tasks (service w)) = {}"
  shows "loop_inv (run st w evs) \<and>
         dom (tasks (service (run st w evs))) = dom (tasks (service w)) \<union> set (issued evs)"
  using assms
proof (induction evs arbitrary: w)
  case Nil
  then show ?case by (simp add: run_def)
next
  case (Cons e evs)
  have dom1: "dom (tasks (service (step_loop st w e))) = dom (tasks (service w)) \<union> set (issued [e])"
    by (rule dom_step_loop)
  have inv1: "loop_inv (step_loop st w e)"
  proof (cases e)
    case (Submit uuid now img req_id sty room palette)
    with Cons.prems have "tasks (service w) uuid = None" by auto
    with Cons.prems(1) Submit show ?thesis by (simp only: loop_inv_submit)
  next
    case (RunNext ev now)
    with Cons.prems(1) show ?thesis by (simp only: loop_inv_run)
  qed
  have d: "distinct (issued evs)"
    using Cons.prems(2) by (cases e) auto
  have disj: "set (issued evs) \<inter> dom (tasks (service (step_loop st w e))) = {}"
    using Cons.prems(2,3) dom1 by (cases e) auto
  from Cons.IH[OF inv1 d disj] dom1 show ?case
    by (cases e) (auto simp: run_def simp del: step_loop.simps)
qed

lemma status_writes_step:
  "\<exists>ws. status_writes (service (step_loop st w e)) = status_writes (service w) @ ws"
proof (cases e)
  case (Submit uuid now img req_id sty room palette)
  then show ?thesis by (simp add: step_loop_Submit del: step_loop.simps)
next
  case (RunNext ev now)
  show ?thesis
  proof (cases "ready w")
    case Nil
    with RunNext show ?thesis by simp
  next
    case (Cons j rest)
    show ?thesis
    proof (cases "tasks (service w) (task_id j)")
      case None
      with Cons RunNext show ?thesis by (simp add: process_redesign_def)
    next
      case (Some r)
      obtain res mm' started where steps:
        "redesign_steps ev st (model_manager (service w)) (openai_client (service w)) j = (res, mm', started)"
        by (cases "redesign_steps ev st (model_manager (service w)) (openai_client (service w)) j") auto
      show ?thesis
      proof (cases res)
        case (Inl e)
        from process_redesign_failed[OF Some steps[unfolded Inl], of now] Cons RunNext
        show ?thesis by simp
      next
        case (Inr p)
        from process_redesign_ok[OF Some steps[unfolded Inr], of now] Cons RunNext
        show ?thesis by simp
      qed
    qed
  qed
qed

lemma status_writes_run:
  "\<exists>ws. status_writes (service (run st w evs)) = status_writes (service w) @ ws"
proof (induction evs arbitrary: w)
  case Nil
  then show ?case by (simp add: run_def)
next
  case (Cons e evs)
  from Cons[of "step_loop st w e"] status_writes_step[of st w e]
  show ?case by (auto simp: run_def simp del: step_loop.simps)
qed

lemma run_append: "run st w (evs @ later) = run st (run st w evs) later"
  by (simp add: run_def)

lemma status_history_prefix:
  "prefix (status_history (service (run st w evs)) tid)
          (status_history (service (run st w (evs @ later))) tid)"
proof -
  from status_writes_run[of st "run st w evs" later] obtain ws where
    "status_writes (service (run st w (evs @ later))) = status_writes (service (run st w evs)) @ ws"
    by (auto simp: run_append)
  then show ?thesis by (simp add: status_history_def)
qed

lemma init_loop_dom: "dom (tasks (service (init_loop k))) = {}"
  by (simp add: init_loop_def PopulatedRoomService_init_def)

text \<open>The definitions that evaluating a concrete run unfolds.\<close>

lemmas float_defs = new_size_def py_truediv_def py_mul_int_float_def py_int_def round_quot_def Let_def compute_bitlen
lemmas mm_defs = get_model_def get_processor_def get_pipeline_def ModelManager_init_def
lemmas svc_defs = submit_redesign_task_def process_redesign_def set_status_def setitem_def
  redesign_steps_def generate_image_description_def generate_design_prompts_def
  create_control_image_def generate_redesigned_image_def default_prompts_def getitem_def
  save_image_def path_join_def resize_image_def PopulatedRoomService_init_def
lemmas loop_defs = run_def init_loop_def

section \<open>C1: the status of a task moves forward\<close>

text \<open>
  Claim C1. In every run of the event loop that starts with an empty registry and in
  which the values of \<open>uuid4\<close> are pairwise distinct, every task id that
  \<open>submit_redesign_task\<close> has returned has one record in the registry, whose
  status is the last value assigned to it; the values assigned to its status, in
  order, are a beginning of \<open>pending, processing, completed\<close> or of
  \<open>pending, processing, failed\<close>; and whatever happens later only extends that
  sequence.
\<close>

theorem task_status_moves_forward:
  assumes "distinct (issued evs)" and "tid \<in> set (issued evs)"
  shows "(\<exists>r. tasks (service (run st (init_loop k) evs)) tid = Some r \<and>
              r ''status'' = Some (Str (last (status_history (service (run st (init_loop k) evs)) tid))))
       \<and> forward_history (status_history (service (run st (init_loop k) evs)) tid)
       \<and> prefix (status_history (service (run st (init_loop k) evs)) tid)
                 (status_history (service (run st (init_loop k) (evs @ later))) tid)"
proof -
  let ?w = "run st (init_loop k) evs"
  from run_inv[OF loop_inv_init assms(1), of k st]
  have inv: "loop_inv ?w" and d: "dom (tasks (service ?w)) = set (issued evs)"
    by (simp_all add: init_loop_dom)
  from d assms(2) obtain r where r: "tasks (service ?w) tid = Some r" by auto
  from inv have "task_inv ?w tid" by (simp add: loop_inv_def)
  with r have "r ''status'' = Some (Str (last (status_history (service ?w) tid)))"
    and "forward_history (status_history (service ?w) tid)"
    by (auto simp: task_inv_def forward_history_def split: if_splits)
  with r status_history_prefix[of st "init_loop k" evs tid later] show ?thesis by simp
qed

text \<open>
  The theorem at the run \<open>example_run\<close>, where the one task goes from
  \<open>pending\<close> through \<open>processing\<close> to \<open>completed\<close>.
\<close>

theorem task_status_moves_forward_witness:
  "distinct (issued example_run) \<and> ''t1'' \<in> set (issued example_run)
   \<and> status_history (service (run example_settings (init_loop None) example_run)) ''t1''
       = [''pending'', ''processing'', ''completed'']
   \<and> forward_history (status_history (service (run example_settings (init_loop None) example_run)) ''t1'')"
proof -
  have h1: "distinct (issued example_run)" by (simp add: example_run_def)
  have h2: "''t1'' \<in> set (issued example_run)" by (simp add: example_run_def)
  have h3: "status_history (service (run example_settings (init_loop None) example_run)) ''t1''
       = [''pending'', ''processing'', ''completed'']"
    by (simp add: example_run_def status_history_def loop_defs svc_defs mm_defs example_image_def
        example_settings_def env_ok_def float_defs)
  from task_status_moves_forward[OF h1 h2, of example_settings None] h1 h2 h3
  show ?thesis by simp
qed

section \<open>C5: the id and the first status of a submitted task\<close>








section \<open>C10: what the failure branch changes\<close>

text \<open>
  Claim C10. When the steps of \<open>_process_redesign\<close> end with an exception, the
  record of the task is the record as it was with \<open>status\<close> set to \<open>failed\<close>
  and \<open>error\<close> set to the text of the exception: \<open>completed_at\<close>,
  \<open>output_path\<close>, \<open>created_at\<close> and \<open>request_id\<close> are as they were (the
  first two absent, for a record that \<open>submit_redesign_task\<close> created), and the
  records of the other tasks are unchanged.
\<close>

theorem failure_changes_status_and_error_only:
  assumes "tasks svc (task_id j) = Some r"
    and "fst (redesign_steps ev st (model_manager svc) (openai_client svc) j) = Inl e"
  shows "\<exists>svc'. process_redesign ev st now svc j = Inr svc' \<and>
           tasks svc' (task_id j) =
             Some (r(''status'' \<mapsto> Str ''failed'', ''error'' \<mapsto> Str (str_exn e))) \<and>
           get_task_status svc' (task_id j) ''completed_at'' = r ''completed_at'' \<and>
           get_task_status svc' (task_id j) ''output_path'' = r ''output_path'' \<and>
           get_task_status svc' (task_id j) ''created_at'' = r ''created_at'' \<and>
           get_task_status svc' (task_id j) ''request_id'' = r ''request_id'' \<and>
           (\<forall>tid. tid \<noteq> task_id j \<longrightarrow> tasks svc' tid = tasks svc tid)"
proof -
  obtain mm' started where
    "redesign_steps ev st (model_manager svc) (openai_client svc) j = (Inl e, mm', started)"
    using assms(2) by (cases "redesign_steps ev st (model_manager svc) (openai_client svc) j") auto
  from process_redesign_failed[OF assms(1) this, of now] show ?thesis
    by (simp add: get_task_status_def)
qed

text \<open>
  The theorem for \<open>example_job\<close> when the edge detection fails: the record keeps
  the two values of its creation and has neither \<open>completed_at\<close> nor
  \<open>output_path\<close>.
\<close>

lemma example_pending_service_record:
  "tasks example_pending_service (task_id example_job) = Some example_pending_record"
  by (simp add: example_pending_service_def example_job_def example_pending_record_def
      submit_redesign_task_def Let_def)

lemma example_steps_assert:
  "redesign_steps env_assert example_settings (model_manager example_pending_service)
        (openai_client example_pending_service) example_job
     = (Inl (Exn ''AssertionError'' []),
        \<lparr>models = [''florence-2'' \<mapsto> 0], processors = [''florence-2'' \<mapsto> Suc 0],
         pipelines = Map.empty, constructed = 2\<rparr>,
        [Resize, Describe, Prompts, Control])"
  by (simp add: example_pending_service_def example_job_def submit_redesign_task_def
      PopulatedRoomService_init_def redesign_steps_def resize_image_def example_image_def
      env_assert_def env_ok_def generate_image_description_def mm_defs
      generate_design_prompts_def create_control_image_def float_defs)

theorem failure_changes_status_and_error_only_witness:
  "tasks example_pending_service (task_id example_job) = Some example_pending_record
   \<and> fst (redesign_steps env_assert example_settings (model_manager example_pending_service)
            (openai_client example_pending_service) example_job) = Inl (Exn ''AssertionError'' [])
   \<and> (\<exists>svc'. process_redesign env_assert example_settings 20 example_pending_service example_job = Inr svc'
         \<and> tasks svc' ''t1'' =
             Some [''status'' \<mapsto> Str ''failed'', ''request_id'' \<mapsto> Str ''r1'',
                   ''created_at'' \<mapsto> Float 11, ''error'' \<mapsto> Str []]
         \<and> get_task_status svc' ''t1'' ''completed_at'' = None
         \<and> get_task_status svc' ''t1'' ''output_path'' = None)"
proof -
  have h1: "tasks example_pending_service (task_id example_job) = Some example_pending_record"
    by (rule example_pending_service_record)
  have h2: "fst (redesign_steps env_assert example_settings (model_manager example_pending_service)
            (openai_client example_pending_service) example_job) = Inl (Exn ''AssertionError'' [])"
    by (simp add: example_steps_assert)
  have r: "example_pending_record(''status'' \<mapsto> Str ''failed'', ''error'' \<mapsto> Str [])
           = [''status'' \<mapsto> Str ''failed'', ''request_id'' \<mapsto> Str ''r1'',
              ''created_at'' \<mapsto> Float 11, ''error'' \<mapsto> Str []]"
    by (rule ext) (simp add: example_pending_record_def)
  from failure_changes_status_and_error_only[OF h1 h2, of 20] h1 h2 r
  show ?thesis
    by (auto simp: example_job_def example_pending_record_def)
qed

section \<open>The steps of the pipeline\<close>

text \<open>
  A library call enters a function only through the field of \<open>env\<close> that models
  it, so two behaviours that agree on the fields a function reads give the same result.
\<close>

lemma get_model_cong:
  assumes "florence_from_pretrained ev' = florence_from_pretrained ev"
  shows "get_model ev' mm n = get_model ev mm n"
  unfolding get_model_def assms by (rule refl)

lemma get_processor_florence_cong:
  assumes "processor_from_pretrained ev' = processor_from_pretrained ev"
  shows "get_processor ev' mm ''florence-2'' = get_processor ev mm ''florence-2''"
  unfolding get_processor_def assms by simp

lemma get_pipeline_cong:
  assumes "flux_from_pretrained ev' = flux_from_pretrained ev"
  shows "get_pipeline ev' mm n = get_pipeline ev mm n"
  unfolding get_pipeline_def assms by (rule refl)

lemma generate_image_description_cong:
  assumes "florence_from_pretrained ev' = florence_from_pretrained ev"
    and "processor_from_pretrained ev' = processor_from_pretrained ev"
    and "florence_caption ev' = florence_caption ev"
  shows "generate_image_description ev' mm img = generate_image_description ev mm img"
  unfolding generate_image_description_def get_model_cong[OF assms(1)]
    get_processor_florence_cong[OF assms(2)] assms(3) by (rule refl)

lemma generate_design_prompts_cong:
  assumes "chat_completions_create ev' = chat_completions_create ev"
    and "json_loads ev' = json_loads ev"
  shows "generate_design_prompts ev' client d sty room pal = generate_design_prompts ev client d sty room pal"
  unfolding generate_design_prompts_def assms by (rule refl)

lemma generate_redesigned_image_cong:
  assumes "flux_from_pretrained ev' = flux_from_pretrained ev" and "flux_pipe ev' = flux_pipe ev"
  shows "generate_redesigned_image ev' mm c p1 p2 = generate_redesigned_image ev mm c p1 p2"
  unfolding generate_redesigned_image_def get_pipeline_cong[OF assms(1)] assms(2) by (rule refl)



text \<open>
  \<open>redesign_steps\<close> case by case: where the first exception of a run comes from,
  and what the run returns then.
\<close>

lemma steps_resize_fails:
  assumes "resize_image (pil_resize ev) (input_image j) 1400 = Inl e"
  shows "redesign_steps ev st mm client j = (Inl e, mm, [Resize])"
  using assms by (simp add: redesign_steps_def)

lemma steps_control_fails:
  assumes "resize_image (pil_resize ev) (input_image j) 1400 = Inr resized"
    and "generate_image_description ev mm resized = (description, mm1)"
    and "canny_detector ev resized = Inl e"
  shows "redesign_steps ev st mm client j = (Inl e, mm1, [Resize, Describe, Prompts, Control])"
  using assms by (simp add: redesign_steps_def create_control_image_def)

lemma steps_clip_fails:
  assumes "resize_image (pil_resize ev) (input_image j) 1400 = Inr resized"
    and "generate_image_description ev mm resized = (description, mm1)"
    and "canny_detector ev resized = Inr control_image"
    and "getitem (generate_design_prompts ev client description (style j) (room_type j)
            (color_palette j)) ''clip'' = Inl e"
  shows "redesign_steps ev st mm client j =
           (Inl e, mm1, [Resize, Describe, Prompts, Control, Generate])"
  using assms by (simp add: redesign_steps_def create_control_image_def)

lemma steps_t5_fails:
  assumes "resize_image (pil_resize ev) (input_image j) 1400 = Inr resized"
    and "generate_image_description ev mm resized = (description, mm1)"
    and "canny_detector ev resized = Inr control_image"
    and "getitem (generate_design_prompts ev client description (style j) (room_type j)
            (color_palette j)) ''clip'' = Inr clip_prompt"
    and "getitem (generate_design_prompts ev client description (style j) (room_type j)
            (color_palette j)) ''t5'' = Inl e"
  shows "redesign_steps ev st mm client j =
           (Inl e, mm1, [Resize, Describe, Prompts, Control, Generate])"
  using assms by (simp add: redesign_steps_def create_control_image_def)

lemma steps_generate_fails:
  assumes "resize_image (pil_resize ev) (input_image j) 1400 = Inr resized"
    and "generate_image_description ev mm resized = (description, mm1)"
    and "canny_detector ev resized = Inr control_image"
    and "getitem (generate_design_prompts ev client description (style j) (room_type j)
            (color_palette j)) ''clip'' = Inr clip_prompt"
    and "getitem (generate_design_prompts ev client description (style j) (room_type j)
            (color_palette j)) ''t5'' = Inr t5_prompt"
    and "generate_redesigned_image ev mm1 control_image clip_prompt t5_prompt = (Inl e, mm2)"
  shows "redesign_steps ev st mm client j =
           (Inl e, mm2, [Resize, Describe, Prompts, Control, Generate])"
  using assms by (simp add: redesign_steps_def create_control_image_def)

lemma steps_generate_ok:
  assumes "resize_image (pil_resize ev) (input_image j) 1400 = Inr resized"
    and "generate_image_description ev mm resized = (description, mm1)"
    and "canny_detector ev resized = Inr control_image"
    and "getitem (generate_design_prompts ev client description (style j) (room_type j)
            (color_palette j)) ''clip'' = Inr clip_prompt"
    and "getitem (generate_design_prompts ev client description (style j) (room_type j)
            (color_palette j)) ''t5'' = Inr t5_prompt"
    and "generate_redesigned_image ev mm1 control_image clip_prompt t5_prompt = (Inr output_image, mm2)"
  shows "redesign_steps ev st mm client j =
           (case save_image (image_save ev) st output_image
                   (''outputs/'' @ request_id j @ ''_output.png'') of
              Inl e \<Rightarrow> (Inl e, mm2, [Resize, Describe, Prompts, Control, Generate, Save])
            | Inr output_path \<Rightarrow>
                (Inr output_path, mm2, [Resize, Describe, Prompts, Control, Generate, Save]))"
  using assms by (simp add: redesign_steps_def create_control_image_def)


text \<open>
  A run of the steps returns the same under every behaviour of the libraries that
  agrees with the given one on the steps that were started.
\<close>

lemma redesign_steps_agree:
  assumes steps: "redesign_steps ev st mm client j = (res, mm', started)"
    and agree: "agree_on started ev ev'"
  shows "redesign_steps ev' st mm client j = (res, mm', started)"
proof (cases "resize_image (pil_resize ev) (input_image j) 1400")
  case (Inl e)
  from steps steps_resize_fails[OF Inl, of st mm client]
  have eq: "(res, mm', started) = (Inl e, mm, [Resize])" by simp
  with agree have a1: "pil_resize ev' = pil_resize ev" by (simp add: agree_on_def)
  from Inl have "resize_image (pil_resize ev') (input_image j) 1400 = Inl e"
    by (simp only: a1)
  from steps_resize_fails[OF this, of st mm client] eq show ?thesis by simp
next
  case (Inr resized)
  obtain description mm1 where gid: "generate_image_description ev mm resized = (description, mm1)"
    by (cases "generate_image_description ev mm resized") auto
  let ?prompts = "generate_design_prompts ev client description (style j) (room_type j) (color_palette j)"
  let ?prompts' = "generate_design_prompts ev' client description (style j) (room_type j) (color_palette j)"
  have upto_control: "resize_image (pil_resize ev') (input_image j) 1400 = Inr resized
       \<and> generate_image_description ev' mm resized = (description, mm1)
       \<and> ?prompts' = ?prompts
       \<and> canny_detector ev' resized = canny_detector ev resized"
    if "set [Resize, Describe, Prompts, Control] \<subseteq> set started"
  proof -
    from that agree have a1: "pil_resize ev' = pil_resize ev"
      and f1: "florence_from_pretrained ev' = florence_from_pretrained ev"
      and f2: "processor_from_pretrained ev' = processor_from_pretrained ev"
      and f3: "florence_caption ev' = florence_caption ev"
      and c1: "chat_completions_create ev' = chat_completions_create ev"
      and c2: "json_loads ev' = json_loads ev"
      and a4: "canny_detector ev' = canny_detector ev"
      by (simp_all add: agree_on_def)
    have a2: "generate_image_description ev' mm resized = generate_image_description ev mm resized"
      by (rule generate_image_description_cong[OF f1 f2 f3])
    have a3: "?prompts' = ?prompts"
      by (rule generate_design_prompts_cong[OF c1 c2])
    from Inr have "resize_image (pil_resize ev') (input_image j) 1400 = Inr resized"
      by (simp only: a1)
    with a2 a3 a4 gid show ?thesis by simp
  qed
  show ?thesis
  proof (cases "canny_detector ev resized")
    case (Inl e)
    from steps steps_control_fails[OF Inr gid Inl, of st client]
    have eq: "(res, mm', started) = (Inl e, mm1, [Resize, Describe, Prompts, Control])" by simp
    then have "set [Resize, Describe, Prompts, Control] \<subseteq> set started" by simp
    from upto_control[OF this] have r': "resize_image (pil_resize ev') (input_image j) 1400 = Inr resized"
      and g': "generate_image_description ev' mm resized = (description, mm1)"
      and c': "canny_detector ev' resized = canny_detector ev resized" by blast+
    from c' Inl have "canny_detector ev' resized = Inl e" by simp
    from steps_control_fails[OF r' g' this, of st client] eq show ?thesis by simp
  next
    case control: (Inr control_image)
    show ?thesis
    proof (cases "getitem ?prompts ''clip''")
      case (Inl e)
      from steps steps_clip_fails[OF Inr gid control Inl, of st]
      have eq: "(res, mm', started) = (Inl e, mm1, [Resize, Describe, Prompts, Control, Generate])"
        by simp
      then have "set [Resize, Describe, Prompts, Control] \<subseteq> set started" by auto
      from upto_control[OF this] have r': "resize_image (pil_resize ev') (input_image j) 1400 = Inr resized"
        and g': "generate_image_description ev' mm resized = (description, mm1)"
        and p': "?prompts' = ?prompts"
        and c': "canny_detector ev' resized = canny_detector ev resized" by blast+
      from c' control have c'': "canny_detector ev' resized = Inr control_image" by simp
      from p' Inl have "getitem ?prompts' ''clip'' = Inl e" by simp
      from steps_clip_fails[OF r' g' c'' this, of st] eq show ?thesis by simp
    next
      case clip: (Inr clip_prompt)
      show ?thesis
      proof (cases "getitem ?prompts ''t5''")
        case (Inl e)
        from steps steps_t5_fails[OF Inr gid control clip Inl, of st]
        have eq: "(res, mm', started) = (Inl e, mm1, [Resize, Describe, Prompts, Control, Generate])"
          by simp
        then have "set [Resize, Describe, Prompts, Control] \<subseteq> set started" by auto
        from upto_control[OF this] have r': "resize_image (pil_resize ev') (input_image j) 1400 = Inr resized"
          and g': "generate_image_description ev' mm resized = (description, mm1)"
          and p': "?prompts' = ?prompts"
          and c': "canny_detector ev' resized = canny_detector ev resized" by blast+
        from c' control have c'': "canny_detector ev' resized = Inr control_image" by simp
        from p' clip have k': "getitem ?prompts' ''clip'' = Inr clip_prompt" by simp
        from p' Inl have "getitem ?prompts' ''t5'' = Inl e" by simp
        from steps_t5_fails[OF r' g' c'' k' this, of st] eq show ?thesis by simp
      next
        case t5: (Inr t5_prompt)
        obtain gres mm2 where gri:
          "generate_redesigned_image ev mm1 control_image clip_prompt t5_prompt = (gres, mm2)"
          by (cases "generate_redesigned_image ev mm1 control_image clip_prompt t5_prompt") auto
        have started_gen: "set [Resize, Describe, Prompts, Control] \<subseteq> set started \<and> Generate \<in> set started"
        proof (cases gres)
          case (Inl e)
          from steps steps_generate_fails[OF Inr gid control clip t5 gri[unfolded Inl], of st]
          show ?thesis by auto
        next
          case out: (Inr output_image)
          from steps steps_generate_ok[OF Inr gid control clip t5 gri[unfolded out], of st]
          show ?thesis by (auto split: sum.splits)
        qed
        from upto_control started_gen
        have r': "resize_image (pil_resize ev') (input_image j) 1400 = Inr resized"
          and g': "generate_image_description ev' mm resized = (description, mm1)"
          and p': "?prompts' = ?prompts"
          and c': "canny_detector ev' resized = canny_detector ev resized" by blast+
        from c' control have c'': "canny_detector ev' resized = Inr control_image" by simp
        from p' clip have k': "getitem ?prompts' ''clip'' = Inr clip_prompt" by simp
        from p' t5 have t': "getitem ?prompts' ''t5'' = Inr t5_prompt" by simp
        from started_gen agree have "flux_from_pretrained ev' = flux_from_pretrained ev"
          and "flux_pipe ev' = flux_pipe ev" by (simp_all add: agree_on_def)
        then have "generate_redesigned_image ev' mm1 control_image clip_prompt t5_prompt
             = generate_redesigned_image ev mm1 control_image clip_prompt t5_prompt"
          by (rule generate_redesigned_image_cong)
        with gri have gri': "generate_redesigned_image ev' mm1 control_image clip_prompt t5_prompt
             = (gres, mm2)" by simp
        show ?thesis
        proof (cases gres)
          case (Inl e)
          from steps steps_generate_fails[OF Inr gid control clip t5 gri[unfolded Inl], of st]
            steps_generate_fails[OF r' g' c'' k' t' gri'[unfolded Inl], of st]
          show ?thesis by simp
        next
          case out: (Inr output_image)
          note ok = steps_generate_ok[OF Inr gid control clip t5 gri[unfolded out], of st]
          note ok' = steps_generate_ok[OF r' g' c'' k' t' gri'[unfolded out], of st]
          from steps ok have "Save \<in> set started"
            by (auto split: sum.splits)
          with agree have a6: "image_save ev' = image_save ev" by (simp add: agree_on_def)
          from ok ok' steps show ?thesis by (simp only: a6)
        qed
      qed
    qed
  qed
qed

section \<open>C4: a step that raises\<close>

text \<open>
  When a step raises, \<open>redesign_steps\<close> returns that exception and the steps up to
  that one.
\<close>

lemma step_raises_aborts:
  assumes "step_raises ev st mm client j s e"
  shows "\<exists>mm'. redesign_steps ev st mm client j = (Inl e, mm', steps_upto s)"
proof (cases "resize_image (pil_resize ev) (input_image j) 1400")
  case (Inl e1)
  with assms have "s = Resize" "e1 = e" by (simp_all add: step_raises_def)
  with steps_resize_fails[OF Inl, of st mm client] show ?thesis by simp
next
  case (Inr resized)
  obtain description mm1 where gid: "generate_image_description ev mm resized = (description, mm1)"
    by (cases "generate_image_description ev mm resized") auto
  let ?prompts = "generate_design_prompts ev client description (style j) (room_type j) (color_palette j)"
  show ?thesis
  proof (cases "canny_detector ev resized")
    case (Inl e4)
    with assms Inr gid have "s = Control" "e4 = e"
      by (simp_all add: step_raises_def create_control_image_def)
    with steps_control_fails[OF Inr gid Inl, of st client] show ?thesis by simp
  next
    case control: (Inr control_image)
    from assms Inr gid control
    have alt: "(s = Generate \<and> generate_raises ev mm1 control_image ?prompts e) \<or>
               (s = Save \<and> save_raises ev st mm1 control_image ?prompts (request_id j) e)"
      by (simp add: step_raises_def create_control_image_def Let_def)
    show ?thesis
    proof (cases "getitem ?prompts ''clip''")
      case (Inl e1)
      with alt have "s = Generate" "e1 = e"
        by (auto simp: generate_raises_def save_raises_def)
      with steps_clip_fails[OF Inr gid control Inl, of st] show ?thesis by simp
    next
      case clip: (Inr clip_prompt)
      show ?thesis
      proof (cases "getitem ?prompts ''t5''")
        case (Inl e2)
        with alt clip have "s = Generate" "e2 = e"
          by (auto simp: generate_raises_def save_raises_def)
        with steps_t5_fails[OF Inr gid control clip Inl, of st] show ?thesis by simp
      next
        case t5: (Inr t5_prompt)
        obtain gres mm2 where gri:
          "generate_redesigned_image ev mm1 control_image clip_prompt t5_prompt = (gres, mm2)"
          by (cases "generate_redesigned_image ev mm1 control_image clip_prompt t5_prompt") auto
        show ?thesis
        proof (cases gres)
          case (Inl e3)
          with alt clip t5 gri have "s = Generate" "e3 = e"
            by (auto simp: generate_raises_def save_raises_def)
          with steps_generate_fails[OF Inr gid control clip t5 gri[unfolded Inl], of st]
          show ?thesis by simp
        next
          case out: (Inr output_image)
          with alt clip t5 gri have "s = Save"
            and "save_image (image_save ev) st output_image
                   (''outputs/'' @ request_id j @ ''_output.png'') = Inl e"
            by (auto simp: generate_raises_def save_raises_def)
          with steps_generate_ok[OF Inr gid control clip t5 gri[unfolded out], of st]
          show ?thesis by simp
        qed
      qed
    qed
  qed
qed

text \<open>Conversely, an exception that leaves the steps is the exception of one of them.\<close>

lemma abort_comes_from_a_step:
  assumes "redesign_steps ev st mm client j = (Inl e, mm', started)"
  shows "\<exists>s. step_raises ev st mm client j s e \<and> started = steps_upto s"
proof (cases "resize_image (pil_resize ev) (input_image j) 1400")
  case (Inl e1)
  with assms steps_resize_fails[OF Inl, of st mm client]
  have "step_raises ev st mm client j Resize e \<and> started = steps_upto Resize"
    by (simp add: step_raises_def)
  then show ?thesis by blast
next
  case (Inr resized)
  obtain description mm1 where gid: "generate_image_description ev mm resized = (description, mm1)"
    by (cases "generate_image_description ev mm resized") auto
  let ?prompts = "generate_design_prompts ev client description (style j) (room_type j) (color_palette j)"
  show ?thesis
  proof (cases "canny_detector ev resized")
    case (Inl e4)
    with assms Inr gid steps_control_fails[OF Inr gid Inl, of st client]
    have "step_raises ev st mm client j Control e \<and> started = steps_upto Control"
      by (simp add: step_raises_def create_control_image_def)
    then show ?thesis by blast
  next
    case control: (Inr control_image)
    have unfold: "step_raises ev st mm client j s e =
       ((s = Generate \<and> generate_raises ev mm1 control_image ?prompts e) \<or>
        (s = Save \<and> save_raises ev st mm1 control_image ?prompts (request_id j) e))" for s
      using Inr gid control by (simp add: step_raises_def create_control_image_def Let_def)
    show ?thesis
    proof (cases "getitem ?prompts ''clip''")
      case (Inl e1)
      with assms steps_clip_fails[OF Inr gid control Inl, of st]
      have "step_raises ev st mm client j Generate e \<and> started = steps_upto Generate"
        by (simp add: unfold generate_raises_def)
      then show ?thesis by blast
    next
      case clip: (Inr clip_prompt)
      show ?thesis
      proof (cases "getitem ?prompts ''t5''")
        case (Inl e2)
        with assms clip steps_t5_fails[OF Inr gid control clip Inl, of st]
        have "step_raises ev st mm client j Generate e \<and> started = steps_upto Generate"
          by (simp add: unfold generate_raises_def)
        then show ?thesis by blast
      next
        case t5: (Inr t5_prompt)
        obtain gres mm2 where gri:
          "generate_redesigned_image ev mm1 control_image clip_prompt t5_prompt = (gres, mm2)"
          by (cases "generate_redesigned_image ev mm1 control_image clip_prompt t5_prompt") auto
        show ?thesis
        proof (cases gres)
          case (Inl e3)
          with assms clip t5 gri
            steps_generate_fails[OF Inr gid control clip t5 gri[unfolded Inl], of st]
          have "step_raises ev st mm client j Generate e \<and> started = steps_upto Generate"
            by (simp add: unfold generate_raises_def)
          then show ?thesis by blast
        next
          case out: (Inr output_image)
          with assms clip t5 gri
            steps_generate_ok[OF Inr gid control clip t5 gri[unfolded out], of st]
          have "step_raises ev st mm client j Save e \<and> started = steps_upto Save"
            by (auto simp: unfold save_raises_def split: sum.splits)
          then show ?thesis by blast
        qed
      qed
    qed
  qed
qed

text \<open>
  Steps 2 and 3 do not raise. When the captioning model cannot be loaded, for one,
  \<open>_generate_image_description\<close> returns the default description and the pipeline
  goes on.
\<close>

lemma describe_and_prompts_never_raise:
  "\<not> step_raises ev st mm client j Describe e \<and> \<not> step_raises ev st mm client j Prompts e"
proof (cases "resize_image (pil_resize ev) (input_image j) 1400")
  case (Inl e1)
  then show ?thesis by (simp add: step_raises_def)
next
  case (Inr resized)
  obtain description mm1 where gid: "generate_image_description ev mm resized = (description, mm1)"
    by (cases "generate_image_description ev mm resized") auto
  show ?thesis
  proof (cases "create_control_image ev resized")
    case (Inl e4)
    with Inr gid show ?thesis by (simp add: step_raises_def)
  next
    case control: (Inr control_image)
    with Inr gid show ?thesis by (simp add: step_raises_def)
  qed
qed

lemma captioning_failure_is_swallowed:
  assumes "models mm ''florence-2'' = None" and "florence_from_pretrained ev = Some e"
  shows "generate_image_description ev mm img = (default_description, mm)"
  using assms by (simp add: generate_image_description_def get_model_def)

text \<open>
  Claim C4 says that a task in which any step raises an error ends as \<open>failed\<close>
  with a non-empty error description. The code stores \<open>str(e)\<close> as it is: in
  \<open>example_failing_run\<close> the edge detection raises an \<open>AssertionError\<close> without
  a message, and the record ends with the status \<open>failed\<close> and the empty string
  as its error. And the code does not fail the task for an error inside step 2: in
  \<open>example_uncaptioned_run\<close> the loading of the captioning model raises, and the
  record ends with the status \<open>completed\<close> and without an error.
\<close>

theorem empty_error_and_swallowed_failure:
  "map (dict_get (get_task_status
          (service (run example_settings (init_loop None) example_failing_run)) ''t1''))
       [''status'', ''error''] = [Str ''failed'', Str []]
   \<and> fst (get_model env_no_captioner ModelManager_init ''florence-2'')
       = Inl (Exn ''OSError'' ''cannot load Florence-2-base'')
   \<and> map (get_task_status
          (service (run example_settings (init_loop None) example_uncaptioned_run)) ''t1'')
       [''status'', ''error'']
       = [Some (Str ''completed''), None]"
  by (simp add: example_failing_run_def example_uncaptioned_run_def loop_defs svc_defs mm_defs
      example_image_def example_settings_def env_assert_def env_no_captioner_def env_ok_def
      float_defs get_task_status_def dict_get_def)

text \<open>
  What steps 2 and 3 return when a call they make fails, and what a raising step
  leaves behind.
\<close>

lemma captioning_failure_gives_default:
  assumes "captioning_fails ev mm img"
  shows "fst (generate_image_description ev mm img) = default_description"
  using assms
  by (auto simp: captioning_fails_def generate_image_description_def split: prod.splits sum.splits)

lemma prompt_failure_gives_default:
  assumes "\<not> client \<or> text_generation_fails ev description sty room palette"
  shows "generate_design_prompts ev client description sty room palette = default_prompts sty room"
  using assms
  by (auto simp: generate_design_prompts_def text_generation_fails_def
      split: sum.splits list.splits option.splits)

lemma raising_step_is_recorded:
  assumes rec: "tasks svc (task_id j) = Some r" and no_out: "r ''output_path'' = None"
    and raises: "step_raises ev st (model_manager svc) (openai_client svc) j s e"
  shows "\<exists>svc'. process_redesign ev st now svc j = Inr svc'
          \<and> dict_get (get_task_status svc' (task_id j)) ''status'' = Str ''failed''
          \<and> dict_get (get_task_status svc' (task_id j)) ''error'' = Str (str_exn e)
          \<and> get_task_status svc' (task_id j) ''output_path'' = None
          \<and> snd (snd (redesign_steps ev st (model_manager svc) (openai_client svc) j)) = steps_upto s
          \<and> (\<forall>ev'. agree_on (steps_upto s) ev ev' \<longrightarrow> process_redesign ev' st now svc j = Inr svc')"
proof -
  from step_raises_aborts[OF raises] obtain mm' where
    fail: "redesign_steps ev st (model_manager svc) (openai_client svc) j = (Inl e, mm', steps_upto s)"
    by blast
  let ?svc' = "svc\<lparr>model_manager := mm',
              tasks := (tasks svc)(task_id j \<mapsto>
                 r(''status'' \<mapsto> Str ''failed'', ''error'' \<mapsto> Str (str_exn e))),
              status_writes := status_writes svc @
                 [(task_id j, ''processing''), (task_id j, ''failed'')]\<rparr>"
  have p: "process_redesign ev st now svc j = Inr ?svc'"
    by (rule process_redesign_failed[OF rec fail])
  have same: "process_redesign ev' st now svc j = Inr ?svc'" if "agree_on (steps_upto s) ev ev'" for ev'
    by (rule process_redesign_failed[OF rec redesign_steps_agree[OF fail that]])
  from no_out have "dict_get (get_task_status ?svc' (task_id j)) ''status'' = Str ''failed''"
    and "dict_get (get_task_status ?svc' (task_id j)) ''error'' = Str (str_exn e)"
    and "get_task_status ?svc' (task_id j) ''output_path'' = None"
    by (simp_all add: get_task_status_def dict_get_def)
  moreover from fail
  have "snd (snd (redesign_steps ev st (model_manager svc) (openai_client svc) j)) = steps_upto s"
    by simp
  ultimately show ?thesis using p same by blast
qed

text \<open>
  Claim C4, amended. When resizing, edge detection, image generation (the lookup of
  its two prompts included) or saving raises an exception \<open>e\<close>, for a task whose
  record has no output path: the record ends with the status \<open>failed\<close> (so not
  \<open>completed\<close>), with \<open>str(e)\<close> as its error, whatever that text is, and
  without an output path; the steps that were started are those up to the raising one;
  and the remaining steps are not executed: the service object ends the same under
  every behaviour of the libraries that agrees with the given one on the steps up to
  the raising one. Captioning and prompt generation are not among the raising steps:
  when a call of theirs fails, they return the default description and the default
  prompts.
\<close>

theorem failed_step_aborts_and_is_recorded:
  "(tasks svc (task_id j) = Some r \<and> r ''output_path'' = None
      \<and> step_raises ev st (model_manager svc) (openai_client svc) j s e \<longrightarrow>
      (\<exists>svc'. process_redesign ev st now svc j = Inr svc'
          \<and> dict_get (get_task_status svc' (task_id j)) ''status'' = Str ''failed''
          \<and> dict_get (get_task_status svc' (task_id j)) ''error'' = Str (str_exn e)
          \<and> get_task_status svc' (task_id j) ''output_path'' = None
          \<and> snd (snd (redesign_steps ev st (model_manager svc) (openai_client svc) j)) = steps_upto s
          \<and> (\<forall>ev'. agree_on (steps_upto s) ev ev' \<longrightarrow> process_redesign ev' st now svc j = Inr svc')))
   \<and> \<not> step_raises ev st mm client j Describe e
   \<and> \<not> step_raises ev st mm client j Prompts e
   \<and> (captioning_fails ev mm img \<longrightarrow>
        fst (generate_image_description ev mm img) = default_description)
   \<and> (\<not> client \<or> text_generation_fails ev description sty room palette \<longrightarrow>
        generate_design_prompts ev client description sty room palette = default_prompts sty room)"
  using raising_step_is_recorded[of svc j r ev st s e now]
    describe_and_prompts_never_raise[of ev st mm client j e]
    captioning_failure_gives_default[of ev mm img]
    prompt_failure_gives_default[of client ev description sty room palette]
  by blast

text \<open>
  The theorem for \<open>example_job\<close> when the edge detection fails: the steps stop at
  the fourth, and a pipeline that cannot be loaded and a disk that is full, which the
  fifth and sixth steps would meet, change nothing. And the two defaults, for a
  captioning model that cannot be loaded and a text generation that cannot be reached.
\<close>

lemma agree_assert_later: "agree_on (steps_upto Control) env_assert env_assert_later"
  by (simp add: agree_on_def env_assert_later_def)

lemma example_step_raises:
  "step_raises env_assert example_settings (model_manager example_pending_service)
     (openai_client example_pending_service) example_job Control (Exn ''AssertionError'' [])"
  by (simp add: step_raises_def example_pending_service_def example_job_def
      submit_redesign_task_def PopulatedRoomService_init_def resize_image_def example_image_def
      env_assert_def env_ok_def generate_image_description_def mm_defs
      create_control_image_def float_defs)

lemma example_captioning_fails: "captioning_fails env_no_captioner ModelManager_init example_image"
  by (simp add: captioning_fails_def env_no_captioner_def env_ok_def mm_defs)

theorem failed_step_aborts_and_is_recorded_witness:
  "tasks example_pending_service (task_id example_job) = Some example_pending_record
   \<and> example_pending_record ''output_path'' = None
   \<and> step_raises env_assert example_settings (model_manager example_pending_service)
         (openai_client example_pending_service) example_job Control (Exn ''AssertionError'' [])
   \<and> (\<exists>svc'. process_redesign env_assert example_settings 20 example_pending_service example_job = Inr svc'
          \<and> dict_get (get_task_status svc' ''t1'') ''status'' = Str ''failed''
          \<and> dict_get (get_task_status svc' ''t1'') ''error'' = Str []
          \<and> get_task_status svc' ''t1'' ''output_path'' = None
          \<and> snd (snd (redesign_steps env_assert example_settings (model_manager example_pending_service)
                 (openai_client example_pending_service) example_job))
               = [Resize, Describe, Prompts, Control]
          \<and> process_redesign env_assert_later example_settings 20 example_pending_service example_job
               = Inr svc')
   \<and> captioning_fails env_no_captioner ModelManager_init example_image
   \<and> fst (generate_image_description env_no_captioner ModelManager_init example_image)
       = default_description
   \<and> text_generation_fails env_ok ''A living room with a sofa.'' ''modern'' ''living room'' None
   \<and> generate_design_prompts env_ok True ''A living room with a sofa.'' ''modern'' ''living room'' None
       = default_prompts ''modern'' ''living room''"
proof -
  have h2: "example_pending_record ''output_path'' = None"
    by (simp add: example_pending_record_def)
  have tg: "text_generation_fails env_ok ''A living room with a sofa.'' ''modern'' ''living room'' None"
    by (simp add: text_generation_fails_def env_ok_def)
  note t = failed_step_aborts_and_is_recorded[where svc = example_pending_service
      and j = example_job and r = example_pending_record and ev = env_assert
      and st = example_settings and s = Control and e = "Exn ''AssertionError'' []" and now = 20]
  from t[THEN conjunct1] example_pending_service_record h2 example_step_raises
  obtain svc' where "process_redesign env_assert example_settings 20 example_pending_service example_job = Inr svc'"
    and "dict_get (get_task_status svc' (task_id example_job)) ''status'' = Str ''failed''"
    and "dict_get (get_task_status svc' (task_id example_job)) ''error'' = Str (str_exn (Exn ''AssertionError'' []))"
    and "get_task_status svc' (task_id example_job) ''output_path'' = None"
    and "snd (snd (redesign_steps env_assert example_settings (model_manager example_pending_service)
                 (openai_client example_pending_service) example_job)) = steps_upto Control"
    and "\<forall>ev'. agree_on (steps_upto Control) env_assert ev'
            \<longrightarrow> process_redesign ev' example_settings 20 example_pending_service example_job = Inr svc'"
    by blast
  with agree_assert_later
  have 1: "\<exists>svc'. process_redesign env_assert example_settings 20 example_pending_service example_job = Inr svc'
          \<and> dict_get (get_task_status svc' ''t1'') ''status'' = Str ''failed''
          \<and> dict_get (get_task_status svc' ''t1'') ''error'' = Str []
          \<and> get_task_status svc' ''t1'' ''output_path'' = None
          \<and> snd (snd (redesign_steps env_assert example_settings (model_manager example_pending_service)
                 (openai_client example_pending_service) example_job))
               = [Resize, Describe, Prompts, Control]
          \<and> process_redesign env_assert_later example_settings 20 example_pending_service example_job
               = Inr svc'"
    by (auto simp: example_job_def)
  from failed_step_aborts_and_is_recorded[where ev = env_no_captioner and mm = ModelManager_init
      and img = example_image] example_captioning_fails
  have 2: "fst (generate_image_description env_no_captioner ModelManager_init example_image)
       = default_description" by blast
  from failed_step_aborts_and_is_recorded[where ev = env_ok and client = True
      and description = "''A living room with a sofa.''" and sty = "''modern''"
      and room = "''living room''" and palette = None] tg
  have 3: "generate_design_prompts env_ok True ''A living room with a sofa.'' ''modern'' ''living room'' None
       = default_prompts ''modern'' ''living room''" by blast
  from example_pending_service_record h2 example_step_raises 1 example_captioning_fails 2 tg 3
  show ?thesis by (intro conjI)
qed

section \<open>C7: the default prompts\<close>

lemma generate_design_prompts_fallback:
  assumes "\<not> client \<or> text_generation_fails ev description sty room palette"
  shows "generate_design_prompts ev client description sty room palette = default_prompts sty room"
  using assms
  by (auto simp: generate_design_prompts_def text_generation_fails_def
      split: sum.splits list.splits option.splits)

lemma default_prompts_clip:
  "getitem (default_prompts sty room) ''clip'' =
     Inr (JString (''A '' @ sty @ '' '' @ room
            @ '' with elegant furniture, balanced lighting, and harmonious colors.''))"
  by (simp add: default_prompts_def getitem_def)

lemma default_prompts_t5: "\<exists>t. getitem (default_prompts sty room) ''t5'' = Inr (JString t)"
  by (simp add: default_prompts_def getitem_def)

lemma get_pipeline_loads:
  assumes "flux_from_pretrained ev = None"
  shows "\<exists>p mm2. get_pipeline ev mm ''flux-canny'' = (Inr p, mm2)"
  using assms by (simp add: get_pipeline_def Let_def split: option.splits)

lemma fallback_steps_complete:
  assumes fb: "\<not> client \<or> (\<forall>d. text_generation_fails ev d (style j) (room_type j) (color_palette j))"
    and ok: "other_steps_succeed ev st j"
  shows "\<exists>p mm2. redesign_steps ev st mm client j
            = (Inr p, mm2, [Resize, Describe, Prompts, Control, Generate, Save])"
proof -
  from ok obtain resized where r: "resize_image (pil_resize ev) (input_image j) 1400 = Inr resized"
    by (auto simp: other_steps_succeed_def split: sum.splits)
  from ok r obtain control where c: "canny_detector ev resized = Inr control"
    by (auto simp: other_steps_succeed_def split: sum.splits)
  obtain description mm1 where gid: "generate_image_description ev mm resized = (description, mm1)"
    by (cases "generate_image_description ev mm resized") auto
  from fb have pr: "generate_design_prompts ev client description (style j) (room_type j) (color_palette j)
            = default_prompts (style j) (room_type j)"
    by (intro generate_design_prompts_fallback) auto
  obtain clip where clip: "getitem (default_prompts (style j) (room_type j)) ''clip'' = Inr clip"
    using default_prompts_clip by blast
  obtain t where t5: "getitem (default_prompts (style j) (room_type j)) ''t5'' = Inr (JString t)"
    using default_prompts_t5 by blast
  from ok r c clip t5 have load: "flux_from_pretrained ev = None"
    by (simp add: other_steps_succeed_def)
  from ok r c clip t5 obtain out rest where
    fl: "flux_pipe ev clip (JString t) control = Inr (out # rest)"
    and sv: "image_save ev out (path_join (DATA_DIR st) (''outputs/'' @ request_id j @ ''_output.png'')) = None"
    by (auto simp: other_steps_succeed_def split: sum.splits list.splits)
  from get_pipeline_loads[OF load, of mm1] obtain p mm2 where
    gp: "get_pipeline ev mm1 ''flux-canny'' = (Inr p, mm2)" by blast
  from gp fl have gri: "generate_redesigned_image ev mm1 control clip (JString t) = (Inr out, mm2)"
    by (simp add: generate_redesigned_image_def)
  from steps_generate_ok[OF r gid c clip[folded pr] t5[folded pr] gri, of st] sv
  show ?thesis by (simp add: save_image_def)
qed

text \<open>
  Claim C7. When the service has no client for the hosted text generation, or the
  call fails (it raises, the response has no choice or no content, or the content is
  not JSON), \<open>_generate_design_prompts\<close> returns the default prompts, whose
  \<open>clip\<close> entry is \<open>"A {style} {room_type} with elegant furniture, balanced
  lighting, and harmonious colors."\<close> with the two values substituted. And the task can
  still complete: if the other steps succeed, \<open>_process_redesign\<close> leaves the
  record with the status \<open>completed\<close>.
\<close>

theorem fallback_prompts_when_text_generation_fails:
  "(\<not> client \<or> text_generation_fails ev description sty room palette \<longrightarrow>
      generate_design_prompts ev client description sty room palette = default_prompts sty room
      \<and> getitem (generate_design_prompts ev client description sty room palette) ''clip'' =
          Inr (JString (''A '' @ sty @ '' '' @ room
                 @ '' with elegant furniture, balanced lighting, and harmonious colors.'')))
   \<and> ((\<not> openai_client svc
         \<or> (\<forall>d. text_generation_fails ev d (style j) (room_type j) (color_palette j)))
        \<and> other_steps_succeed ev st j \<and> tasks svc (task_id j) = Some r \<longrightarrow>
       (\<exists>svc'. process_redesign ev st now svc j = Inr svc'
          \<and> dict_get (get_task_status svc' (task_id j)) ''status'' = Str ''completed''))"
proof (intro conjI impI)
  assume a: "\<not> client \<or> text_generation_fails ev description sty room palette"
  show "generate_design_prompts ev client description sty room palette = default_prompts sty room"
    by (rule generate_design_prompts_fallback[OF a])
  then show "getitem (generate_design_prompts ev client description sty room palette) ''clip'' =
          Inr (JString (''A '' @ sty @ '' '' @ room
                 @ '' with elegant furniture, balanced lighting, and harmonious colors.''))"
    by (simp only: default_prompts_clip)
next
  assume a: "(\<not> openai_client svc
         \<or> (\<forall>d. text_generation_fails ev d (style j) (room_type j) (color_palette j)))
        \<and> other_steps_succeed ev st j \<and> tasks svc (task_id j) = Some r"
  then have fb: "\<not> openai_client svc
         \<or> (\<forall>d. text_generation_fails ev d (style j) (room_type j) (color_palette j))"
    and ok: "other_steps_succeed ev st j" and rec: "tasks svc (task_id j) = Some r"
    by blast+
  from fallback_steps_complete[OF fb ok, of "model_manager svc"] obtain p mm2 where
    "redesign_steps ev st (model_manager svc) (openai_client svc) j
       = (Inr p, mm2, [Resize, Describe, Prompts, Control, Generate, Save])" by blast
  from process_redesign_ok[OF rec this, of now]
  show "\<exists>svc'. process_redesign ev st now svc j = Inr svc'
          \<and> dict_get (get_task_status svc' (task_id j)) ''status'' = Str ''completed''"
    by (simp add: get_task_status_def dict_get_def)
qed

text \<open>
  The theorem without a client, with a client whose call cannot reach the service,
  and for \<open>example_job\<close>, which completes.
\<close>

lemma example_other_steps: "other_steps_succeed env_ok example_settings example_job"
  by (simp add: other_steps_succeed_def example_job_def example_image_def env_ok_def
      resize_image_def default_prompts_def getitem_def float_defs)

lemma example_text_generation_fails:
  "text_generation_fails env_ok d ''modern'' ''living room'' None"
  by (simp add: text_generation_fails_def env_ok_def)

theorem fallback_prompts_when_text_generation_fails_witness:
  "generate_design_prompts env_ok False ''A living room with a sofa.'' ''modern'' ''living room'' None
       = default_prompts ''modern'' ''living room''
   \<and> text_generation_fails env_ok ''A living room with a sofa.'' ''modern'' ''living room'' None
   \<and> getitem (generate_design_prompts env_ok True ''A living room with a sofa.'' ''modern''
                 ''living room'' None) ''clip''
       = Inr (JString ''A modern living room with elegant furniture, balanced lighting, and harmonious colors.'')
   \<and> \<not> openai_client example_pending_service
   \<and> other_steps_succeed env_ok example_settings example_job
   \<and> tasks example_pending_service (task_id example_job) = Some example_pending_record
   \<and> (\<exists>svc'. process_redesign env_ok example_settings 20 example_pending_service example_job = Inr svc'
          \<and> dict_get (get_task_status svc' ''t1'') ''status'' = Str ''completed'')"
proof -
  have nc: "\<not> openai_client example_pending_service"
    by (simp add: example_pending_service_def submit_redesign_task_def PopulatedRoomService_init_def
        Let_def)
  note t = fallback_prompts_when_text_generation_fails
  from t[of False env_ok "''A living room with a sofa.''" "''modern''" "''living room''" None]
  have 1: "generate_design_prompts env_ok False ''A living room with a sofa.'' ''modern'' ''living room'' None
       = default_prompts ''modern'' ''living room''" by blast
  from t[of True env_ok "''A living room with a sofa.''" "''modern''" "''living room''" None]
    example_text_generation_fails
  have "getitem (generate_design_prompts env_ok True ''A living room with a sofa.'' ''modern''
                 ''living room'' None) ''clip''
       = Inr (JString (''A '' @ ''modern'' @ '' '' @ ''living room''
                 @ '' with elegant furniture, balanced lighting, and harmonious colors.''))"
    by blast
  then have 2: "getitem (generate_design_prompts env_ok True ''A living room with a sofa.'' ''modern''
                 ''living room'' None) ''clip''
       = Inr (JString ''A modern living room with elegant furniture, balanced lighting, and harmonious colors.'')"
    by simp
  from t[where ev = env_ok and svc = example_pending_service and j = example_job
           and st = example_settings and r = example_pending_record and now = 20]
    nc example_other_steps example_pending_service_record
  have "\<exists>svc'. process_redesign env_ok example_settings 20 example_pending_service example_job = Inr svc'
          \<and> dict_get (get_task_status svc' (task_id example_job)) ''status'' = Str ''completed''"
    by blast
  then have 3: "\<exists>svc'. process_redesign env_ok example_settings 20 example_pending_service example_job = Inr svc'
          \<and> dict_get (get_task_status svc' ''t1'') ''status'' = Str ''completed''"
    by (simp add: example_job_def)
  from 1 2 3 nc example_other_steps example_pending_service_record example_text_generation_fails
  show ?thesis by simp
qed

section \<open>C9: the model manager caches what it loads\<close>












section \<open>C6: the size of the resized image\<close>

text \<open>An image within the bound is returned as it is.\<close>

lemma resize_image_within_bound:
  "width img \<le> target_size \<Longrightarrow> height img \<le> target_size
     \<Longrightarrow> resize_image rs img target_size = Inr img"
  by (simp add: resize_image_def)

text \<open>
  Claim C6 says that the larger side of a resized image equals the bound. For an
  image of 2099 by 1000 pixels the quotient \<open>1400 / 2099\<close> is rounded down to the
  nearest binary64 number, the product of 2099 and that number is the binary64 number
  just below 1400, and \<open>int\<close> truncates it: the image is resized to 1399 by 666.
\<close>

theorem resize_image_2099_by_1000:
  "new_size 2099 1000 1400 = (1399, 666)
   \<and> resize_image (pil_resize env_ok) \<lparr>width = 2099, height = 1000, format = Some ''JPEG''\<rparr> 1400
       = Inr \<lparr>width = 1399, height = 666, format = None\<rparr>"
  by (simp add: resize_image_def env_ok_def float_defs)

section \<open>C8: an image that fails the validation\<close>

text \<open>
  The \<open>HTTPException\<close> of \<open>validate_image\<close> is raised inside the \<open>try\<close>
  block of the handler, whose \<open>except Exception\<close> catches it and raises a new one
  with the status 500. No task is created on this path.
\<close>

lemma validation_failure_is_internal_error:
  assumes "validate_image img 256 4096 = Inl e"
  shows "redesign_populated_room ev st (Inr img) sty room palette svc request_uuid task_uuid
           start_time created end_time
         = (Inl (HTTPException 500 (''Error processing redesign request: '' @ str_exn e)), svc, [])"
  using assms by (simp add: redesign_populated_room_def internal_error_def)

text \<open>
  Claim C8 says that an image outside the bounds, or in an unknown format, is
  rejected with the status 400. \<open>validate_image\<close> raises with the status 400 for a
  PNG of 100 by 100 pixels, and the route answers with the status 500, the reason of the
  validation inside its detail; the service object has no task and nothing is
  scheduled. A GIF of 800 by 600 pixels gets the status 500 as well.
\<close>

theorem rejected_image_gets_status_500:
  "validate_image \<lparr>width = 100, height = 100, format = Some ''PNG''\<rparr> 256 4096
     = Inl (HTTPException 400 ''Image dimensions too small. Minimum size is 256x256 pixels.'')
   \<and> redesign_populated_route env_ok example_settings None
        (Inr \<lparr>width = 100, height = 100, format = Some ''PNG''\<rparr>) ''modern'' ''living room'' None
        ''r1'' ''t1'' 10 11 12
     = (Inl (HTTPException 500
          ''Error processing redesign request: 400: Image dimensions too small. Minimum size is 256x256 pixels.''),
        PopulatedRoomService_init None, [])
   \<and> status_code (fst (redesign_populated_route env_ok example_settings None
        (Inr \<lparr>width = 100, height = 100, format = Some ''PNG''\<rparr>) ''modern'' ''living room'' None
        ''r1'' ''t1'' 10 11 12)) = 500
   \<and> status_code (fst (redesign_populated_route env_ok example_settings None
        (Inr \<lparr>width = 800, height = 600, format = Some ''GIF''\<rparr>) ''modern'' ''living room'' None
        ''r1'' ''t1'' 10 11 12)) = 500"
  by (simp add: redesign_populated_route_def redesign_populated_room_def validate_image_def
      internal_error_def get_populated_room_service_def str_nat.simps status_code_def)

section \<open>C2: polling the status of a task\<close>

text \<open>
  The route builds a new service object for each request, whose registry is empty, so
  it finds no task id.
\<close>

lemma tasks_route_not_found:
  "tasks_route api_key tid = Inl (HTTPException 404 (''Task with ID '' @ tid @ '' not found''))"
  by (simp add: tasks_route_def get_task_status_endpoint_def get_populated_room_service_def
      PopulatedRoomService_init_def get_task_status_def dict_get_def)

text \<open>
  Claim C2 says that a GET of the task route, for a task id that a POST has
  returned, returns the status of the task. The POST of \<open>example_image\<close> is
  accepted and returns the task id \<open>t1\<close>; the GET for \<open>t1\<close> raises the
  \<open>HTTPException\<close> with the status 404.
\<close>

theorem issued_task_id_is_not_found:
  "fst (redesign_populated_route env_ok example_settings None (Inr example_image)
          ''modern'' ''living room'' None ''r1'' ''t1'' 10 11 12)
     = Inr (ImageResponse ''Room redesign processing started''
              ''http://localhost:8000/data/outputs/r1_output.png'' ''t1'' 2)
   \<and> tasks_route None ''t1'' = Inl (HTTPException 404 ''Task with ID t1 not found'')
   \<and> status_code (tasks_route None ''t1'') = 404"
  by (simp add: tasks_route_not_found status_code_def
      redesign_populated_route_def redesign_populated_room_def validate_image_def
      get_populated_room_service_def example_image_def example_settings_def env_ok_def
      save_image_def path_join_def submit_redesign_task_def get_image_url_def basename_def
      PopulatedRoomService_init_def Let_def)

section \<open>C3: what a completed task reports\<close>

text \<open>The record of the task of \<open>example_run\<close>, key by key.\<close>

lemma example_run_record:
  "map (get_task_status (service (run example_settings (init_loop None) example_run)) ''t1'')
     [''status'', ''request_id'', ''created_at'', ''output_path'', ''completed_at'', ''output_url'', ''error'']
   = [Some (Str ''completed''), Some (Str ''r1''), Some (Float 11),
      Some (Str ''/app/data/outputs/r1_output.png''), Some (Float 20), None, None]"
  by (simp add: example_run_def loop_defs svc_defs mm_defs example_image_def
      example_settings_def env_ok_def float_defs get_task_status_def)

text \<open>
  Claim C3 says that an output URL is reported for a task that has completed. After
  \<open>example_run\<close> the record of \<open>t1\<close> has the status \<open>completed\<close> and the
  path of the saved image under \<open>output_path\<close>. The handler of the task route,
  given the very service object that ran the task, tests for the key
  \<open>output_path\<close> and then reads the key \<open>output_url\<close>, which no code sets:
  its response has the status and both timestamps, and \<open>null\<close> as its output URL.
\<close>

theorem completed_task_reports_no_output_url:
  "dict_get (get_task_status (service (run example_settings (init_loop None) example_run)) ''t1'')
      ''status'' = Str ''completed''
   \<and> dict_get (get_task_status (service (run example_settings (init_loop None) example_run)) ''t1'')
      ''output_path'' = Str ''/app/data/outputs/r1_output.png''
   \<and> (\<exists>response.
         get_task_status_endpoint ''t1'' (service (run example_settings (init_loop None) example_run))
           = Inr response
         \<and> response ''status'' = Some (Str ''completed'')
         \<and> response ''created_at'' = Some (Float 11)
         \<and> response ''completed_at'' = Some (Float 20)
         \<and> response ''output_url'' = Some PyNone)"
  using example_run_record
  by (simp add: get_task_status_endpoint_def dict_get_def TaskStatusResponse_def is_str_def
      is_float_def Let_def)

end
